theory Spec2Isabelle
  imports Complex_Main "HOL-Library.AList"
begin

section \<open>Incident learning simulator: game state, ledger and orchestration\<close>

text \<open>
  The simulator keeps its state in four DynamoDB tables: the game-state table (one item,
  \<open>GameId = "default"\<close>, attribute \<open>State\<close> with the values \<open>Ready\<close>, \<open>Ongoing\<close>,
  \<open>Resetting\<close>), the security and the resilience scenario tables (one item per component,
  attribute \<open>CurrentState\<close> with \<open>Green\<close> or \<open>Red\<close>) and the resource mapping table.
  The tables are modelled as in-memory tables whose reads and writes succeed; calls to the
  other AWS services (EC2, S3, CloudTrail, IAM, SSM, Step Functions) can fail, and their
  outcome is read from an environment record that is a parameter of every handler.
\<close>

subsection \<open>Tables\<close>

datatype error = Thrown string | TimedOut

text \<open>An item of the resource mapping table. A missing attribute is the empty string, which
  JavaScript's \<open>!x\<close> treats like \<open>undefined\<close>.\<close>

record resource_info =
  ResourceId :: string
  ResourceArn :: string
  ResourceName :: string

datatype scenario_table = SecurityScenarioTable | ResilienceScenarioTable

text \<open>A scenario table is the list of its items, \<open>(ComponentName, CurrentState)\<close>, in the
  order in which a scan returns them.\<close>

record db =
  gameStateTable :: "string \<rightharpoonup> string"
  securityTable :: "(string \<times> string) list"
  resilienceTable :: "(string \<times> string) list"
  resourceMapping :: "string \<rightharpoonup> resource_info"

definition truthy :: "string \<Rightarrow> bool" where
  "truthy s = (s \<noteq> [])"

definition scenarioItems :: "scenario_table \<Rightarrow> db \<Rightarrow> (string \<times> string) list" where
  "scenarioItems t w = (case t of SecurityScenarioTable \<Rightarrow> securityTable w
                                | ResilienceScenarioTable \<Rightarrow> resilienceTable w)"

text \<open>\<open>getComponents\<close>: a scan of a scenario table; the handlers use the component names.\<close>

definition getComponents :: "scenario_table \<Rightarrow> db \<Rightarrow> string list" where
  "getComponents t w = map fst (scenarioItems t w)"

text \<open>The ledger entry of a component, as a read of the table returns it.\<close>

definition currentState :: "scenario_table \<Rightarrow> string \<Rightarrow> db \<Rightarrow> string option" where
  "currentState t c w = map_of (scenarioItems t w) c"

text \<open>\<open>updateComponentState\<close> / \<open>updateDynamoDBState\<close>: an UpdateItem with
  \<open>SET CurrentState = :state\<close>, which overwrites the attribute whatever it was and creates
  the item when the key is new.\<close>

definition updateComponentState :: "scenario_table \<Rightarrow> string \<Rightarrow> string \<Rightarrow> db \<Rightarrow> db" where
  "updateComponentState t c s w =
     (case t of
        SecurityScenarioTable \<Rightarrow> w\<lparr>securityTable := AList.update c s (securityTable w)\<rparr>
      | ResilienceScenarioTable \<Rightarrow> w\<lparr>resilienceTable := AList.update c s (resilienceTable w)\<rparr>)"

text \<open>\<open>getGameState\<close> of the injection handlers: \<open>result.Item?.State\<close>, undefined when the
  item is missing.\<close>

definition getGameState :: "db \<Rightarrow> string option" where
  "getGameState w = gameStateTable w ''default''"

definition updateGameState :: "string \<Rightarrow> db \<Rightarrow> db" where
  "updateGameState s w = w\<lparr>gameStateTable := (gameStateTable w)(''default'' \<mapsto> s)\<rparr>"

definition getResourceInfo :: "db \<Rightarrow> string \<Rightarrow> resource_info option" where
  "getResourceInfo w rt = resourceMapping w rt"

text \<open>The test \<open>!info || !info.ResourceId\<close> of the handlers, as the identifier when present.\<close>

definition resourceIdOf :: "db \<Rightarrow> string \<Rightarrow> string option" where
  "resourceIdOf w rt =
     (case getResourceInfo w rt of
        None \<Rightarrow> None
      | Some i \<Rightarrow> if truthy (ResourceId i) then Some (ResourceId i) else None)"

subsection \<open>Observers\<close>

text \<open>
  The observation state machine runs one Lambda per entry of \<open>functionNameArray\<close>. Every
  observer has the same shape: look the resource up, check it, write the component's
  \<open>CurrentState\<close>, return \<open>{solved: currentState === "Green"}\<close>; an error anywhere is
  logged and rethrown. The check against the live resource is the environment's: it either
  throws (or runs into the Lambda timeout) or returns the boolean the source computes.
\<close>

datatype observer =
    SecurityAlbsg | SecurityCloudtrail | SecurityEc2role | SecurityEc2sg | SecurityRdssg
  | SecurityS3 | ResilienceAlbsg | ResilienceEc2sg | ResilienceEc2 | ResilienceEc2process

definition functionNameArray :: "observer list" where
  "functionNameArray =
     [SecurityAlbsg, SecurityCloudtrail, SecurityEc2role, SecurityEc2sg, SecurityRdssg,
      SecurityS3, ResilienceAlbsg, ResilienceEc2sg, ResilienceEc2, ResilienceEc2process]"

fun observerTable :: "observer \<Rightarrow> scenario_table" where
  "observerTable SecurityAlbsg = SecurityScenarioTable"
| "observerTable SecurityCloudtrail = SecurityScenarioTable"
| "observerTable SecurityEc2role = SecurityScenarioTable"
| "observerTable SecurityEc2sg = SecurityScenarioTable"
| "observerTable SecurityRdssg = SecurityScenarioTable"
| "observerTable SecurityS3 = SecurityScenarioTable"
| "observerTable ResilienceAlbsg = ResilienceScenarioTable"
| "observerTable ResilienceEc2sg = ResilienceScenarioTable"
| "observerTable ResilienceEc2 = ResilienceScenarioTable"
| "observerTable ResilienceEc2process = ResilienceScenarioTable"

fun observerComponent :: "observer \<Rightarrow> string" where
  "observerComponent SecurityAlbsg = ''ALB SG''"
| "observerComponent SecurityCloudtrail = ''CloudTrail''"
| "observerComponent SecurityEc2role = ''EC2 Role''"
| "observerComponent SecurityEc2sg = ''EC2 SG''"
| "observerComponent SecurityRdssg = ''RDS SG''"
| "observerComponent SecurityS3 = ''S3''"
| "observerComponent ResilienceAlbsg = ''ALB SG''"
| "observerComponent ResilienceEc2sg = ''EC2 SG''"
| "observerComponent ResilienceEc2 = ''EC2''"
| "observerComponent ResilienceEc2process = ''EC2 Process''"

text \<open>The boolean of the check is \<open>hasVulnerability\<close>, \<open>hasIssue\<close>, \<open>isShutdown\<close>,
  \<open>isCloudTrailDisabled\<close>, \<open>isPublicAccessBlockOff\<close> or \<open>isProcessDown\<close>, where true
  means Red; only \<open>security-ec2role\<close> computes \<open>hasSafeRole\<close>, where true means Green.\<close>

definition currentStateOf :: "observer \<Rightarrow> bool \<Rightarrow> string" where
  "currentStateOf ob b =
     (if ob = SecurityEc2role then (if b then ''Green'' else ''Red'')
      else (if b then ''Red'' else ''Green''))"

type_synonym checks = "observer \<Rightarrow> error + bool"

definition handler_observer :: "checks \<Rightarrow> observer \<Rightarrow> db \<Rightarrow> (error + bool) \<times> db" where
  "handler_observer chk ob w =
     (case chk ob of
        Inl e \<Rightarrow> (Inl e, w)
      | Inr b \<Rightarrow>
          (let cs = currentStateOf ob b;
               w' = updateComponentState (observerTable ob) (observerComponent ob) cs w
           in (Inr (cs = ''Green''), w')))"

subsection \<open>The observation state machine\<close>

text \<open>
  \<open>pass.next(observationParallel.next(isGameEndChoice.when(isGameEndCondition,
  notifyGameEnd).otherwise(waitInLoop.next(observationParallel))))\<close>. No state has a Catch
  or a Retry for an error of the function, so a branch whose Lambda throws or times out
  fails the Parallel state and with it the execution. The branches write different items,
  so they are run here in the order of \<open>functionNameArray\<close>; every branch is invoked, and
  the Parallel state fails with the first error when there is one.
\<close>

fun runBranches :: "checks \<Rightarrow> observer list \<Rightarrow> db \<Rightarrow> (error + bool list) \<times> db" where
  "runBranches chk [] w = (Inr [], w)"
| "runBranches chk (ob # obs) w =
     (case handler_observer chk ob w of
        (Inl e, w') \<Rightarrow> (Inl e, snd (runBranches chk obs w'))
      | (Inr b, w') \<Rightarrow>
          (case runBranches chk obs w' of
             (Inl e, w'') \<Rightarrow> (Inl e, w'')
           | (Inr bs, w'') \<Rightarrow> (Inr (b # bs), w'')))"

definition observationParallel :: "checks \<Rightarrow> db \<Rightarrow> (error + bool list) \<times> db" where
  "observationParallel chk w = runBranches chk functionNameArray w"

text \<open>\<open>$count($filter($states.input, function($v) {$v.solved})) = $count($states.input)\<close>\<close>

definition isGameEndCondition :: "bool list \<Rightarrow> bool" where
  "isGameEndCondition input = (length (filter (\<lambda>v. v) input) = length input)"

datatype sfn_state =
    Pass | ObservationParallel | IsGameEndChoice "bool list" | Wait | NofityGameEnd
  | ExecutionSucceeded | ExecutionFailed error

text \<open>An execution: the state it is in, the \<open>gameId\<close> variable, the number of Parallel
  states it has run and the seconds it has spent in the Wait state.\<close>

record execution_state =
  current :: sfn_state
  gameId :: string
  polls :: nat
  waited :: nat

definition waitInLoop_seconds :: nat where
  "waitInLoop_seconds = 1"

text \<open>One transition. \<open>input\<close> is the \<open>GameId\<close> of the event that started the execution;
  \<open>chks n\<close> are the checks as the \<open>n\<close>-th Parallel state finds the resources.\<close>

definition sfn_step :: "string \<Rightarrow> (nat \<Rightarrow> checks) \<Rightarrow> execution_state \<times> db \<Rightarrow> execution_state \<times> db" where
  "sfn_step input chks x =
     (case x of (e, w) \<Rightarrow>
        (case current e of
           Pass \<Rightarrow> (e\<lparr>current := ObservationParallel, gameId := input\<rparr>, w)
         | ObservationParallel \<Rightarrow>
             (case observationParallel (chks (polls e)) w of
                (Inl err, w') \<Rightarrow> (e\<lparr>current := ExecutionFailed err, polls := Suc (polls e)\<rparr>, w')
              | (Inr out, w') \<Rightarrow> (e\<lparr>current := IsGameEndChoice out, polls := Suc (polls e)\<rparr>, w'))
         | IsGameEndChoice out \<Rightarrow>
             (if isGameEndCondition out then (e\<lparr>current := NofityGameEnd\<rparr>, w)
              else (e\<lparr>current := Wait\<rparr>, w))
         | Wait \<Rightarrow>
             (e\<lparr>current := ObservationParallel, waited := waited e + waitInLoop_seconds\<rparr>, w)
         | NofityGameEnd \<Rightarrow>
             (e\<lparr>current := ExecutionSucceeded\<rparr>,
              w\<lparr>gameStateTable := (gameStateTable w)(gameId e \<mapsto> ''Ready'')\<rparr>)
         | ExecutionSucceeded \<Rightarrow> (e, w)
         | ExecutionFailed err \<Rightarrow> (e, w)))"

text \<open>An execution run for a number of transitions. The loop of the state machine has no
  bound of its own, so a run is followed for as many transitions as asked.\<close>

fun sfn_run :: "nat \<Rightarrow> string \<Rightarrow> (nat \<Rightarrow> checks) \<Rightarrow> execution_state \<times> db \<Rightarrow> execution_state \<times> db" where
  "sfn_run 0 input chks x = x"
| "sfn_run (Suc n) input chks x = sfn_run n input chks (sfn_step input chks x)"

definition startExecution :: execution_state where
  "startExecution = \<lparr>current = Pass, gameId = [], polls = 0, waited = 0\<rparr>"

text \<open>The components an iteration polls, and what it means that all of them read Green.\<close>

definition allGreen :: "db \<Rightarrow> bool" where
  "allGreen w =
     list_all (\<lambda>ob. currentState (observerTable ob) (observerComponent ob) w = Some ''Green'')
       functionNameArray"

definition observerKey :: "observer \<Rightarrow> scenario_table \<times> string" where
  "observerKey ob = (observerTable ob, observerComponent ob)"


subsection \<open>Failure injection\<close>

text \<open>
  The four injection handlers answer an API Gateway request with a status code and a JSON
  body. What they do to the AWS resources is outside the tables: the outcome of every SDK
  call is read from the environment, and so is \<open>Math.random()\<close>.
  \<open>injectVulnerability\<close> of \<open>security/utils/vulnerability-injector\<close> is not part of the
  sources at hand and is a parameter as a whole: it either throws or returns.
\<close>

record response =
  statusCode :: nat
  message :: string
  components :: "string list"

datatype sdk_result = SdkOk | SdkError string

record inject_env =
  random :: real
  injectVulnerability :: "string \<Rightarrow> resource_info option \<Rightarrow> error + unit"
  stopInstances :: "string \<Rightarrow> sdk_result"
  revokeIngress :: "string \<Rightarrow> nat \<Rightarrow> sdk_result"
  sendCommand :: "string \<Rightarrow> sdk_result"
  ALB_SECURITY_GROUP_ID :: string

definition respond :: "nat \<Rightarrow> string \<Rightarrow> response" where
  "respond code msg = \<lparr>statusCode = code, message = msg, components = []\<rparr>"

definition gameNotReady :: "string option \<Rightarrow> response" where
  "gameNotReady gs =
     respond 400 (''Game is not ready to start. Current state: ''
                  @ (case gs of None \<Rightarrow> ''undefined'' | Some s \<Rightarrow> s))"

text \<open>\<open>components[Math.floor(Math.random() * components.length)]\<close>; an index outside the
  array reads \<open>undefined\<close>, and the handler then throws on \<open>.ComponentName\<close>.\<close>

definition selectRandom :: "real \<Rightarrow> 'a list \<Rightarrow> 'a option" where
  "selectRandom r xs =
     (let i = nat \<lfloor>r * real (length xs)\<rfloor> in if i < length xs then Some (xs ! i) else None)"

definition startsWith :: "string \<Rightarrow> string \<Rightarrow> bool" where
  "startsWith s p = (take (length p) s = p)"

text \<open>\<open>ResourceHelper.mapComponentToResourceType\<close> (security handlers).\<close>

definition ResourceHelper_mapComponentToResourceType :: "string \<Rightarrow> string" where
  "ResourceHelper_mapComponentToResourceType componentName =
     (if componentName = ''ALB SG'' then ''ALB_SG''
      else if componentName = ''EC2 SG'' then ''EC2_SG''
      else if componentName = ''EC2 Role'' then ''EC2_SAFE_ROLE''
      else if componentName = ''S3'' then ''S3_BUCKET''
      else if componentName = ''RDS SG'' then ''RDS_SG''
      else if componentName = ''CloudTrail'' then ''CLOUDTRAIL''
      else componentName)"

definition security_easy_handler :: "inject_env \<Rightarrow> db \<Rightarrow> response \<times> db" where
  "security_easy_handler env w =
     (let gameState = getGameState w in
      if gameState \<noteq> Some ''Ready'' then (gameNotReady gameState, w)
      else
        (case selectRandom (random env) (getComponents SecurityScenarioTable w) of
           None \<Rightarrow> (respond 500 ''Error starting security easy scenario'', w)
         | Some c \<Rightarrow>
             (let resourceType = ResourceHelper_mapComponentToResourceType c in
              case injectVulnerability env resourceType (getResourceInfo w resourceType) of
                Inl e \<Rightarrow> (respond 500 ''Error injecting vulnerability'', w)
              | Inr u \<Rightarrow>
                  (let w1 = updateComponentState SecurityScenarioTable c ''Red'' w;
                       w2 = updateGameState ''Ongoing'' w1
                   in (\<lparr>statusCode = 200,
                        message = ''Security Easy scenario started successfully'',
                        components = [c]\<rparr>, w2)))))"

text \<open>The loop of the Hard handler: an error of one component is logged and the loop
  goes on with the next.\<close>

fun security_hard_loop :: "inject_env \<Rightarrow> string list \<Rightarrow> db \<Rightarrow> db" where
  "security_hard_loop env [] w = w"
| "security_hard_loop env (c # cs) w =
     (let resourceType = ResourceHelper_mapComponentToResourceType c in
      case injectVulnerability env resourceType (getResourceInfo w resourceType) of
        Inl e \<Rightarrow> security_hard_loop env cs w
      | Inr u \<Rightarrow>
          security_hard_loop env cs (updateComponentState SecurityScenarioTable c ''Red'' w))"

definition security_hard_handler :: "inject_env \<Rightarrow> db \<Rightarrow> response \<times> db" where
  "security_hard_handler env w =
     (let gameState = getGameState w in
      if gameState \<noteq> Some ''Ready'' then (gameNotReady gameState, w)
      else
        (let w1 = security_hard_loop env (getComponents SecurityScenarioTable w) w;
             w2 = updateGameState ''Ongoing'' w1
         in (respond 200 ''Security Hard scenario started successfully'', w2)))"

text \<open>Resilience handlers. The helpers that differ between \<open>easy.ts\<close> and \<open>hard.ts\<close>
  carry the file's name.\<close>

definition easy_mapComponentToResourceType :: "string \<Rightarrow> string" where
  "easy_mapComponentToResourceType componentName =
     (if componentName = ''EC2'' then ''EC2_INSTANCE_1''
      else if componentName = ''ALB SG'' then ''ALB_SG''
      else if componentName = ''EC2 SG'' then ''EC2_SG''
      else if componentName = ''EC2 Process'' then ''EC2_PROCESS''
      else componentName)"

definition hard_mapComponentToResourceType :: "string \<Rightarrow> string" where
  "hard_mapComponentToResourceType componentName =
     (if componentName = ''EC2'' then ''EC2_INSTANCE''
      else if componentName = ''ALB SG'' then ''ALB_SG''
      else if componentName = ''EC2 SG'' then ''EC2_SG''
      else if componentName = ''EC2 Process'' then ''EC2_PROCESS''
      else componentName)"

text \<open>\<open>killApplicationProcess\<close>: a ValidationException is logged, anything else rethrown.\<close>

definition killApplicationProcess :: "inject_env \<Rightarrow> string \<Rightarrow> error + unit" where
  "killApplicationProcess env instanceId =
     (case sendCommand env instanceId of
        SdkOk \<Rightarrow> Inr ()
      | SdkError n \<Rightarrow> if n = ''ValidationException'' then Inr () else Inl (Thrown n))"

text \<open>\<open>stopBothEC2Instances\<close> / \<open>injectEC2Failure\<close>: both instances must be in the mapping;
  an error of a stop call is logged and swallowed.\<close>

definition stopBothEC2Instances :: "inject_env \<Rightarrow> db \<Rightarrow> error + unit" where
  "stopBothEC2Instances env w =
     (case resourceIdOf w ''EC2_INSTANCE_1'' of
        None \<Rightarrow> Inl (Thrown ''EC2 Instance 1 information not found'')
      | Some i1 \<Rightarrow>
          (case resourceIdOf w ''EC2_INSTANCE_2'' of
             None \<Rightarrow> Inl (Thrown ''EC2 Instance 2 information not found'')
           | Some i2 \<Rightarrow>
               (case (stopInstances env i1, stopInstances env i2) of (r1, r2) \<Rightarrow> Inr ())))"

text \<open>\<open>killRandomApplicationProcess\<close> / \<open>killAllApplicationProcesses\<close>: the same shape,
  with the SSM command in place of the stop call.\<close>

definition killAllApplicationProcesses :: "inject_env \<Rightarrow> db \<Rightarrow> error + unit" where
  "killAllApplicationProcesses env w =
     (case resourceIdOf w ''EC2_INSTANCE_1'' of
        None \<Rightarrow> Inl (Thrown ''EC2 Instance 1 information not found'')
      | Some i1 \<Rightarrow>
          (case resourceIdOf w ''EC2_INSTANCE_2'' of
             None \<Rightarrow> Inl (Thrown ''EC2 Instance 2 information not found'')
           | Some i2 \<Rightarrow>
               (case (killApplicationProcess env i1, killApplicationProcess env i2) of
                  (r1, r2) \<Rightarrow> Inr ())))"

text \<open>\<open>removeInboundRule\<close> and \<open>hard.ts\<close>'s \<open>removeHTTPInboundRule\<close>: a rule that is not
  there is fine, any other error is rethrown.\<close>

definition revokeOrThrow :: "inject_env \<Rightarrow> string \<Rightarrow> nat \<Rightarrow> error + unit" where
  "revokeOrThrow env securityGroupId port =
     (case revokeIngress env securityGroupId port of
        SdkOk \<Rightarrow> Inr ()
      | SdkError n \<Rightarrow> if n = ''InvalidPermission.NotFound'' then Inr () else Inl (Thrown n))"

definition hard_removeALBInboundRule :: "inject_env \<Rightarrow> db \<Rightarrow> string \<Rightarrow> error + unit" where
  "hard_removeALBInboundRule env w securityGroupId =
     (case resourceIdOf w ''ALB_SG'' of
        None \<Rightarrow> Inl (Thrown ''ALB Security Group information not found'')
      | Some albSg \<Rightarrow> revokeOrThrow env securityGroupId 8080)"

definition hard_injectFailure :: "inject_env \<Rightarrow> db \<Rightarrow> string \<Rightarrow> string \<Rightarrow> error + unit" where
  "hard_injectFailure env w resourceType componentName =
     (if resourceType = ''EC2_INSTANCE'' then stopBothEC2Instances env w
      else if resourceType = ''ALB_SG'' then
        (case resourceIdOf w ''ALB_SG'' of
           None \<Rightarrow> Inl (Thrown ''ALB Security Group information not found'')
         | Some g \<Rightarrow> revokeOrThrow env g 80)
      else if resourceType = ''EC2_SG'' then
        (case resourceIdOf w ''EC2_SG'' of
           None \<Rightarrow> Inl (Thrown ''EC2 Security Group information not found'')
         | Some g \<Rightarrow> hard_removeALBInboundRule env w g)
      else if resourceType = ''EC2_PROCESS'' then
        (case resourceIdOf w ''EC2_PROCESS'' of
           None \<Rightarrow> Inl (Thrown ''EC2 Process information not found'')
         | Some serviceId \<Rightarrow> killAllApplicationProcesses env w)
      else Inl (Thrown (''Unsupported resource type: '' @ resourceType)))"

text \<open>The loop of \<open>hard.ts\<close>, with \<open>failedComponents\<close> as accumulator.\<close>

fun resilience_hard_loop ::
  "inject_env \<Rightarrow> string list \<Rightarrow> string list \<times> db \<Rightarrow> string list \<times> db" where
  "resilience_hard_loop env [] acc = acc"
| "resilience_hard_loop env (c # cs) (failedComponents, w) =
     (if c = ''EC2 Process'' then resilience_hard_loop env cs (failedComponents, w)
      else
        (case hard_injectFailure env w (hard_mapComponentToResourceType c) c of
           Inl e \<Rightarrow> resilience_hard_loop env cs (failedComponents, w)
         | Inr u \<Rightarrow>
             resilience_hard_loop env cs
               (failedComponents @ [c],
                updateComponentState ResilienceScenarioTable c ''Red'' w)))"

definition resilience_hard_handler :: "inject_env \<Rightarrow> db \<Rightarrow> response \<times> db" where
  "resilience_hard_handler env w =
     (let gameState = getGameState w in
      if gameState \<noteq> Some ''Ready'' then (gameNotReady gameState, w)
      else
        (case resilience_hard_loop env (getComponents ResilienceScenarioTable w) ([], w) of
           (failedComponents, w1) \<Rightarrow>
             (\<lparr>statusCode = 200,
               message = ''Resilience Hard scenario started successfully'',
               components = failedComponents\<rparr>,
              updateGameState ''Ongoing'' w1)))"

text \<open>\<open>easy.ts\<close>: its \<open>removeHTTPInboundRule\<close> and \<open>removeALBInboundRule\<close> log every error
  and go on, also the missing security group of the load balancer.\<close>

definition easy_removeHTTPInboundRule :: "inject_env \<Rightarrow> string \<Rightarrow> error + unit" where
  "easy_removeHTTPInboundRule env securityGroupId =
     (case revokeIngress env securityGroupId 80 of SdkOk \<Rightarrow> Inr () | SdkError n \<Rightarrow> Inr ())"

definition easy_removeALBInboundRule :: "inject_env \<Rightarrow> db \<Rightarrow> string \<Rightarrow> error + unit" where
  "easy_removeALBInboundRule env w securityGroupId =
     (case resourceIdOf w ''ALB_SG'' of
        None \<Rightarrow>
          (if \<not> truthy (ALB_SECURITY_GROUP_ID env) then Inr ()
           else (case revokeOrThrow env securityGroupId 8080 of Inl e \<Rightarrow> Inr () | Inr u \<Rightarrow> Inr ()))
      | Some albSg \<Rightarrow>
          (case revokeOrThrow env securityGroupId 8080 of Inl e \<Rightarrow> Inr () | Inr u \<Rightarrow> Inr ()))"

definition easy_injectFailure ::
  "inject_env \<Rightarrow> db \<Rightarrow> string \<Rightarrow> string \<Rightarrow> string \<Rightarrow> error + unit" where
  "easy_injectFailure env w resourceType resourceId componentName =
     (if resourceId = ''i-dummy'' \<or> startsWith resourceId ''dummy-''
         \<or> startsWith resourceId ''sg-dummy'' then Inr ()
      else if resourceType = ''EC2_INSTANCE_1'' \<or> resourceType = ''EC2_INSTANCE_2''
        then stopBothEC2Instances env w
      else if resourceType = ''ALB_SG'' then easy_removeHTTPInboundRule env resourceId
      else if resourceType = ''EC2_SG'' then easy_removeALBInboundRule env w resourceId
      else if resourceType = ''EC2_PROCESS'' then killAllApplicationProcesses env w
      else Inl (Thrown (''Unsupported resource type: '' @ resourceType)))"

definition resilience_easy_handler :: "inject_env \<Rightarrow> db \<Rightarrow> response \<times> db" where
  "resilience_easy_handler env w =
     (let gameState = getGameState w in
      if gameState \<noteq> Some ''Ready'' then (gameNotReady gameState, w)
      else
        (case selectRandom (random env) (getComponents ResilienceScenarioTable w) of
           None \<Rightarrow> (respond 500 ''Error starting resilience easy scenario'', w)
         | Some c \<Rightarrow>
             (let resourceType = easy_mapComponentToResourceType c in
              case resourceIdOf w resourceType of
                None \<Rightarrow> (respond 500 ''Error starting resilience easy scenario'', w)
              | Some resourceId \<Rightarrow>
                  (case easy_injectFailure env w resourceType resourceId c of
                     Inl e \<Rightarrow> (respond 500 ''Error starting resilience easy scenario'', w)
                   | Inr u \<Rightarrow>
                       (let w1 = updateComponentState ResilienceScenarioTable c ''Red'' w;
                            w2 = updateGameState ''Ongoing'' w1
                        in (\<lparr>statusCode = 200,
                             message = ''Resilience Easy scenario started successfully'',
                             components = [c]\<rparr>, w2))))))"

text \<open>The routes \<open>sec-easy\<close>, \<open>sec-hard\<close>, \<open>res-easy\<close> and \<open>res-hard\<close> of the API.\<close>

datatype category = Security | Resilience

datatype difficulty = Easy | Hard

fun inject :: "category \<Rightarrow> difficulty \<Rightarrow> inject_env \<Rightarrow> db \<Rightarrow> response \<times> db" where
  "inject Security Easy = security_easy_handler"
| "inject Security Hard = security_hard_handler"
| "inject Resilience Easy = resilience_easy_handler"
| "inject Resilience Hard = resilience_hard_handler"

subsection \<open>Reset\<close>

text \<open>
  The reset handler (\<open>lambda/reset/index.ts\<close>) works on the tables and on the resources it restores: the inbound rules
  of the security groups, the public access block of the bucket, the trail, the instance
  profile associations, the stop and start calls it issues to the instances, and the
  executions of the observation state machine. Whether an SDK call fails, what the search
  by CloudFormation tags finds, and in which state an instance is seen after how many
  seconds, is the environment's.
\<close>

record ip_permission =
  IpProtocol :: string
  FromPort :: int
  ToPort :: int
  IpRanges :: "(string \<times> string) list"
  UserIdGroupPairs :: "(string \<times> string) list"

record security_group =
  GroupId :: string
  IpPermissions :: "ip_permission list"

record public_access_block =
  BlockPublicAcls :: bool
  BlockPublicPolicy :: bool
  IgnorePublicAcls :: bool
  RestrictPublicBuckets :: bool

record trail =
  IsLogging :: bool
  IsMultiRegionTrail :: bool
  IncludeGlobalServiceEvents :: bool

record association =
  AssociationId :: string
  InstanceId :: string
  IamInstanceProfileArn :: string

datatype execution_status = RUNNING | SUCCEEDED | FAILED | ABORTED

datatype aws_call =
    DescribeSecurityGroups string
  | RevokeSecurityGroupIngress string
  | AuthorizeSecurityGroupIngress string
  | GetPublicAccessBlock
  | PutPublicAccessBlock
  | DescribeTrails
  | GetTrailStatus
  | StartLogging
  | UpdateTrail
  | DescribeIamInstanceProfileAssociations
  | ReplaceIamInstanceProfileAssociation string
  | DescribeInstances string
  | StopInstances string
  | StartInstances string
  | ListExecutions
  | StopExecution string
  | StartExecution

record cloud =
  tables :: db
  securityGroups :: "string \<rightharpoonup> ip_permission list"
  publicAccessBlocks :: "string \<rightharpoonup> public_access_block"
  trails :: "string \<rightharpoonup> trail"
  associations :: "association list"
  instanceCalls :: "aws_call list"
  executions :: "(string \<times> execution_status) list"

record reset_env =
  fails :: "aws_call \<Rightarrow> bool"
  tagSearch :: "string \<Rightarrow> string option"
  instanceStateAt :: "string \<Rightarrow> nat \<Rightarrow> string option"
  OBSERVATION_STATE_MACHINE_ARN :: string
  MEMO_APP_INSTANCE_ID :: string
  MEMO_APP_BUCKET_NAME :: string
  MEMO_APP_CLOUDTRAIL_NAME :: string
  MEMO_APP_EC2_ROLE_NAME :: string
  now :: string

text \<open>An awaited call: it returns or throws, and leaves the resources as far as it got.
  \<open>andThen\<close> is the next statement of a \<open>try\<close> block: it is not reached after a throw.\<close>

type_synonym step = "cloud \<Rightarrow> (error + unit) \<times> cloud"

definition andThen :: "step \<Rightarrow> step \<Rightarrow> step" where
  "andThen f g c = (case f c of (Inl e, c') \<Rightarrow> (Inl e, c') | (Inr u, c') \<Rightarrow> g c')"

definition succeed :: step where
  "succeed c = (Inr (), c)"

text \<open>\<open>getGameState\<close> of the reset handler: \<open>result.Item?.State || "Unknown"\<close>.\<close>

definition reset_getGameState :: "db \<Rightarrow> string" where
  "reset_getGameState w =
     (case gameStateTable w ''default'' of
        None \<Rightarrow> ''Unknown''
      | Some s \<Rightarrow> if truthy s then s else ''Unknown'')"

text \<open>The three \<open>get...SecurityGroup\<close> functions: the group of the resource mapping, and
  when that is missing or cannot be described, the first group the tag search finds.\<close>

definition describeGroup :: "reset_env \<Rightarrow> cloud \<Rightarrow> string \<Rightarrow> string \<Rightarrow> error + security_group" where
  "describeGroup env c request groupId =
     (if fails env (DescribeSecurityGroups request) then Inl (Thrown ''DescribeSecurityGroups'')
      else (case securityGroups c groupId of
              None \<Rightarrow> Inl (Thrown ''Security Group not found'')
            | Some rules \<Rightarrow> Inr \<lparr>GroupId = groupId, IpPermissions = rules\<rparr>))"

definition getSecurityGroupOf ::
  "string \<Rightarrow> string \<Rightarrow> reset_env \<Rightarrow> cloud \<Rightarrow> error + security_group" where
  "getSecurityGroupOf resourceType logicalId env c =
     (case (case resourceIdOf (tables c) resourceType of
              None \<Rightarrow> Inl (Thrown ''Security Group information not found in resource mapping table'')
            | Some groupId \<Rightarrow> describeGroup env c groupId groupId) of
        Inr sg \<Rightarrow> Inr sg
      | Inl e \<Rightarrow>
          (case tagSearch env logicalId of
             None \<Rightarrow>
               (if fails env (DescribeSecurityGroups logicalId)
                then Inl (Thrown ''DescribeSecurityGroups'')
                else Inl (Thrown ''Security Group not found''))
           | Some groupId \<Rightarrow> describeGroup env c logicalId groupId))"

definition getAlbSecurityGroup :: "reset_env \<Rightarrow> cloud \<Rightarrow> error + security_group" where
  "getAlbSecurityGroup = getSecurityGroupOf ''ALB_SG'' ''*AlbSecurityGroup*''"

definition getEc2SecurityGroup :: "reset_env \<Rightarrow> cloud \<Rightarrow> error + security_group" where
  "getEc2SecurityGroup = getSecurityGroupOf ''EC2_SG'' ''*WebappServiceEc2ServiceSecurityGroup*''"

definition getRdsSecurityGroup :: "reset_env \<Rightarrow> cloud \<Rightarrow> error + security_group" where
  "getRdsSecurityGroup = getSecurityGroupOf ''RDS_SG'' ''*AuroraClusterSecurityGroup*''"

text \<open>The two EC2 calls on the inbound rules of a group: revoking removes the rules
  listed, authorizing adds one rule and refuses a rule that is already there.\<close>

definition revokeSecurityGroupIngress :: "reset_env \<Rightarrow> string \<Rightarrow> ip_permission list \<Rightarrow> step" where
  "revokeSecurityGroupIngress env groupId perms c =
     (if fails env (RevokeSecurityGroupIngress groupId)
      then (Inl (Thrown ''RevokeSecurityGroupIngress''), c)
      else (case securityGroups c groupId of
              None \<Rightarrow> (Inl (Thrown ''InvalidGroup.NotFound''), c)
            | Some rules \<Rightarrow>
                (Inr (), c\<lparr>securityGroups :=
                   (securityGroups c)(groupId \<mapsto> filter (\<lambda>r. r \<notin> set perms) rules)\<rparr>)))"

definition authorizeSecurityGroupIngress :: "reset_env \<Rightarrow> string \<Rightarrow> ip_permission \<Rightarrow> step" where
  "authorizeSecurityGroupIngress env groupId perm c =
     (if fails env (AuthorizeSecurityGroupIngress groupId)
      then (Inl (Thrown ''AuthorizeSecurityGroupIngress''), c)
      else (case securityGroups c groupId of
              None \<Rightarrow> (Inl (Thrown ''InvalidGroup.NotFound''), c)
            | Some rules \<Rightarrow>
                (if perm \<in> set rules then (Inl (Thrown ''InvalidPermission.Duplicate''), c)
                 else (Inr (), c\<lparr>securityGroups :=
                         (securityGroups c)(groupId \<mapsto> rules @ [perm])\<rparr>))))"

definition albBaseline :: ip_permission where
  "albBaseline =
     \<lparr>IpProtocol = ''tcp'', FromPort = 80, ToPort = 80,
      IpRanges = [(''0.0.0.0/0'', ''HTTP access from anywhere'')], UserIdGroupPairs = []\<rparr>"

definition ec2Baseline :: "string \<Rightarrow> ip_permission" where
  "ec2Baseline albGroupId =
     \<lparr>IpProtocol = ''tcp'', FromPort = 8080, ToPort = 8080,
      IpRanges = [], UserIdGroupPairs = [(albGroupId, ''Load balancer to target'')]\<rparr>"

definition rdsBaseline :: "string \<Rightarrow> ip_permission" where
  "rdsBaseline ec2GroupId =
     \<lparr>IpProtocol = ''tcp'', FromPort = 5432, ToPort = 5432,
      IpRanges = [], UserIdGroupPairs = [(ec2GroupId, ''EC2 to RDS'')]\<rparr>"

definition revokeExisting :: "reset_env \<Rightarrow> security_group \<Rightarrow> step" where
  "revokeExisting env sg =
     (if IpPermissions sg \<noteq> []
      then revokeSecurityGroupIngress env (GroupId sg) (IpPermissions sg)
      else succeed)"

definition resetAlbSecurityGroup :: "reset_env \<Rightarrow> security_group \<Rightarrow> step" where
  "resetAlbSecurityGroup env sg =
     andThen (revokeExisting env sg)
       (authorizeSecurityGroupIngress env (GroupId sg) albBaseline)"

definition resetEc2SecurityGroup :: "reset_env \<Rightarrow> security_group \<Rightarrow> security_group \<Rightarrow> step" where
  "resetEc2SecurityGroup env sg albSg =
     andThen (revokeExisting env sg)
       (authorizeSecurityGroupIngress env (GroupId sg) (ec2Baseline (GroupId albSg)))"

definition resetRdsSecurityGroup :: "reset_env \<Rightarrow> security_group \<Rightarrow> security_group \<Rightarrow> step" where
  "resetRdsSecurityGroup env sg ec2Sg =
     andThen (revokeExisting env sg)
       (authorizeSecurityGroupIngress env (GroupId sg) (rdsBaseline (GroupId ec2Sg)))"

definition resetSecurityGroups :: "reset_env \<Rightarrow> step" where
  "resetSecurityGroups env c =
     (case getAlbSecurityGroup env c of
        Inl e \<Rightarrow> (Inl e, c)
      | Inr albSg \<Rightarrow>
          (case resetAlbSecurityGroup env albSg c of
             (Inl e, c1) \<Rightarrow> (Inl e, c1)
           | (Inr u, c1) \<Rightarrow>
               (case getEc2SecurityGroup env c1 of
                  Inl e \<Rightarrow> (Inl e, c1)
                | Inr ec2Sg \<Rightarrow>
                    (case resetEc2SecurityGroup env ec2Sg albSg c1 of
                       (Inl e, c2) \<Rightarrow> (Inl e, c2)
                     | (Inr u, c2) \<Rightarrow>
                         (case getRdsSecurityGroup env c2 of
                            Inl e \<Rightarrow> (Inl e, c2)
                          | Inr rdsSg \<Rightarrow> resetRdsSecurityGroup env rdsSg ec2Sg c2)))))"

text \<open>S3: the configuration is read first, which throws when the bucket has none.\<close>

definition enablePublicAccessBlock :: "reset_env \<Rightarrow> string \<Rightarrow> step" where
  "enablePublicAccessBlock env bucketName c =
     (if fails env GetPublicAccessBlock \<or> publicAccessBlocks c bucketName = None
      then (Inl (Thrown ''GetPublicAccessBlock''), c)
      else if fails env PutPublicAccessBlock then (Inl (Thrown ''PutPublicAccessBlock''), c)
      else (Inr (), c\<lparr>publicAccessBlocks := (publicAccessBlocks c)(bucketName \<mapsto>
              \<lparr>BlockPublicAcls = True, BlockPublicPolicy = True,
               IgnorePublicAcls = True, RestrictPublicBuckets = True\<rparr>)\<rparr>))"

definition enableS3PublicAccessBlock :: "reset_env \<Rightarrow> step" where
  "enableS3PublicAccessBlock env c =
     (case resourceIdOf (tables c) ''S3_BUCKET'' of
        None \<Rightarrow>
          (if \<not> truthy (MEMO_APP_BUCKET_NAME env) then (Inr (), c)
           else enablePublicAccessBlock env (MEMO_APP_BUCKET_NAME env) c)
      | Some bucketName \<Rightarrow> enablePublicAccessBlock env bucketName c)"

definition startLoggingIfOff :: "reset_env \<Rightarrow> string \<Rightarrow> trail \<Rightarrow> step" where
  "startLoggingIfOff env trailName t c =
     (if \<not> IsLogging t then
        (if fails env StartLogging then (Inl (Thrown ''StartLogging''), c)
         else (Inr (), c\<lparr>trails := (trails c)(trailName \<mapsto> t\<lparr>IsLogging := True\<rparr>)\<rparr>))
      else (Inr (), c))"

definition updateTrail :: "reset_env \<Rightarrow> string \<Rightarrow> step" where
  "updateTrail env trailName c =
     (if fails env UpdateTrail then (Inl (Thrown ''UpdateTrail''), c)
      else (case trails c trailName of
              None \<Rightarrow> (Inl (Thrown ''TrailNotFoundException''), c)
            | Some t \<Rightarrow>
                (Inr (), c\<lparr>trails := (trails c)(trailName \<mapsto>
                   t\<lparr>IsMultiRegionTrail := True, IncludeGlobalServiceEvents := True\<rparr>)\<rparr>)))"

definition enableTrailLogging :: "reset_env \<Rightarrow> string \<Rightarrow> step" where
  "enableTrailLogging env trailName c =
     (if trailName = ''IsengardTrail-DO-NOT-DELETE'' then (Inr (), c)
      else if fails env DescribeTrails then (Inl (Thrown ''DescribeTrails''), c)
      else (case trails c trailName of
              None \<Rightarrow> (Inl (Thrown ''CloudTrail not found''), c)
            | Some t \<Rightarrow>
                (if fails env GetTrailStatus then (Inl (Thrown ''GetTrailStatus''), c)
                 else andThen (startLoggingIfOff env trailName t) (updateTrail env trailName) c)))"

definition enableCloudTrail :: "reset_env \<Rightarrow> step" where
  "enableCloudTrail env c =
     (case resourceIdOf (tables c) ''CLOUDTRAIL'' of
        None \<Rightarrow>
          (if \<not> truthy (MEMO_APP_CLOUDTRAIL_NAME env) then (Inr (), c)
           else enableTrailLogging env (MEMO_APP_CLOUDTRAIL_NAME env) c)
      | Some trailName \<Rightarrow> enableTrailLogging env trailName c)"

text \<open>\<open>resetRole\<close> catches whatever is thrown inside it ("continue even when an error
  occurred"), so it always returns; the loop over the associations ends at the first
  replacement that fails.\<close>

fun replaceAssociations :: "reset_env \<Rightarrow> string \<Rightarrow> association list \<Rightarrow> cloud \<Rightarrow> cloud" where
  "replaceAssociations env arn [] c = c"
| "replaceAssociations env arn (a # as) c =
     (if fails env (ReplaceIamInstanceProfileAssociation (AssociationId a)) then c
      else replaceAssociations env arn as
             (c\<lparr>associations :=
                  map (\<lambda>b. if AssociationId b = AssociationId a
                            then b\<lparr>IamInstanceProfileArn := arn\<rparr> else b)
                    (associations c)\<rparr>))"

definition resetRole :: "reset_env \<Rightarrow> string \<Rightarrow> cloud \<Rightarrow> cloud" where
  "resetRole env roleName c =
     (case getResourceInfo (tables c) ''EC2_SAFE_ROLE'' of
        None \<Rightarrow> c
      | Some safeRoleInfo \<Rightarrow>
          (if \<not> truthy (ResourceArn safeRoleInfo) then c
           else
             (case (resourceIdOf (tables c) ''EC2_INSTANCE_1'',
                    resourceIdOf (tables c) ''EC2_INSTANCE_2'') of
                (Some i1, Some i2) \<Rightarrow>
                  (if fails env DescribeIamInstanceProfileAssociations then c
                   else replaceAssociations env (ResourceArn safeRoleInfo)
                          (filter (\<lambda>a. InstanceId a \<in> set [i1, i2]) (associations c)) c)
              | _ \<Rightarrow> c)))"

definition resetIAMRole :: "reset_env \<Rightarrow> step" where
  "resetIAMRole env c =
     (case resourceIdOf (tables c) ''EC2_SAFE_ROLE'' of
        None \<Rightarrow>
          (if \<not> truthy (MEMO_APP_EC2_ROLE_NAME env) then (Inr (), c)
           else (Inr (), resetRole env (MEMO_APP_EC2_ROLE_NAME env) c))
      | Some roleName \<Rightarrow> (Inr (), resetRole env roleName c))"

text \<open>
  The restarts of the instances run concurrently, so each is written as its timeline: the
  calls it issues and how it settles, each with the time in seconds since the restarts
  began. An SDK call takes no time; a wait polls every 10 seconds for at most 300 seconds.
  \<open>t0\<close> is the time at which a wait begins; with its outcome it returns the time at
  which it ends.
\<close>

datatype event = Call aws_call | Rejected error | Fulfilled

type_synonym timeline = "(nat \<times> event) list"

function waitForInstanceStopped ::
  "reset_env \<Rightarrow> string \<Rightarrow> nat \<Rightarrow> nat \<Rightarrow> (error + unit) \<times> nat" where
  "waitForInstanceStopped env instanceId t0 elapsedTime =
     (if elapsedTime < 300 then
        (if fails env (DescribeInstances instanceId)
         then (Inl (Thrown ''DescribeInstances''), t0 + elapsedTime)
         else
           (let stateName = instanceStateAt env instanceId (t0 + elapsedTime) in
            if stateName = Some ''stopped'' then (Inr (), t0 + elapsedTime)
            else if stateName = Some ''terminated'' \<or> stateName = Some ''shutting-down''
              then (Inl (Thrown ''cannot restart''), t0 + elapsedTime)
            else waitForInstanceStopped env instanceId t0 (elapsedTime + 10)))
      else (Inl (Thrown ''Timeout waiting for EC2 instance to stop''), t0 + elapsedTime))"
  by pat_completeness auto
termination
  by (relation "measure (\<lambda>(env, i, t0, elapsedTime). 300 - elapsedTime)") auto

function waitForInstanceRunning ::
  "reset_env \<Rightarrow> string \<Rightarrow> nat \<Rightarrow> nat \<Rightarrow> (error + unit) \<times> nat" where
  "waitForInstanceRunning env instanceId t0 elapsedTime =
     (if elapsedTime < 300 then
        (if fails env (DescribeInstances instanceId)
         then (Inl (Thrown ''DescribeInstances''), t0 + elapsedTime)
         else
           (let stateName = instanceStateAt env instanceId (t0 + elapsedTime) in
            if stateName = Some ''running'' then (Inr (), t0 + elapsedTime)
            else if stateName = Some ''terminated'' \<or> stateName = Some ''shutting-down''
              then (Inl (Thrown ''cannot start''), t0 + elapsedTime)
            else waitForInstanceRunning env instanceId t0 (elapsedTime + 10)))
      else (Inl (Thrown ''Timeout waiting for EC2 instance to start''), t0 + elapsedTime))"
  by pat_completeness auto
termination
  by (relation "measure (\<lambda>(env, i, t0, elapsedTime). 300 - elapsedTime)") auto

declare waitForInstanceStopped.simps [simp del]

declare waitForInstanceRunning.simps [simp del]

text \<open>The \<open>StartInstancesCommand\<close> that ends every branch of a restart.\<close>

definition startInstance :: "reset_env \<Rightarrow> string \<Rightarrow> nat \<Rightarrow> timeline" where
  "startInstance env instanceId t =
     (if fails env (StartInstances instanceId) then [(t, Rejected (Thrown ''StartInstances''))]
      else [(t, Call (StartInstances instanceId)), (t, Fulfilled)])"

definition forceRestartInstance :: "reset_env \<Rightarrow> string \<Rightarrow> nat \<Rightarrow> timeline" where
  "forceRestartInstance env instanceId t0 =
     (if fails env (StopInstances instanceId) then [(t0, Rejected (Thrown ''StopInstances''))]
      else (t0, Call (StopInstances instanceId)) #
             (case waitForInstanceStopped env instanceId t0 0 of
                (Inl e, t) \<Rightarrow> [(t, Rejected e)]
              | (Inr u, t) \<Rightarrow> startInstance env instanceId t))"

definition startEC2InstanceRestart :: "reset_env \<Rightarrow> string \<Rightarrow> timeline" where
  "startEC2InstanceRestart env instanceId =
     (if fails env (DescribeInstances instanceId) then [(0, Rejected (Thrown ''DescribeInstances''))]
      else
        (case instanceStateAt env instanceId 0 of
           None \<Rightarrow> [(0, Rejected (Thrown ''Instance not found''))]
         | Some stateName \<Rightarrow>
             (if stateName = ''running'' then forceRestartInstance env instanceId 0
              else if stateName = ''stopped'' then startInstance env instanceId 0
              else if stateName = ''stopping'' then
                (case waitForInstanceStopped env instanceId 0 0 of
                   (Inl e, t) \<Rightarrow> [(t, Rejected e)]
                 | (Inr u, t) \<Rightarrow> startInstance env instanceId t)
              else if stateName = ''pending'' then
                (case waitForInstanceRunning env instanceId 0 0 of
                   (Inl e, t) \<Rightarrow> [(t, Rejected e)]
                 | (Inr u, t) \<Rightarrow> forceRestartInstance env instanceId t)
              else [(0, Fulfilled)])))"

text \<open>
  \<open>await Promise.all(restartPromises)\<close>: all restarts are begun, and their events happen
  in the order of their times (events of the same time in the order of the instances).
  The await returns when every restart is fulfilled and throws at the first rejection;
  what the other restarts would still do after that is not part of what the handler
  leaves when it returns.
\<close>

fun settle :: "timeline \<Rightarrow> aws_call list \<Rightarrow> (error + unit) \<times> aws_call list" where
  "settle [] calls = (Inr (), calls)"
| "settle ((t, Call call) # events) calls = settle events (calls @ [call])"
| "settle ((t, Rejected e) # events) calls = (Inl e, calls)"
| "settle ((t, Fulfilled) # events) calls = settle events calls"

definition promiseAll :: "timeline list \<Rightarrow> (error + unit) \<times> aws_call list" where
  "promiseAll timelines = settle (sort_key fst (concat timelines)) []"

definition restartAll :: "reset_env \<Rightarrow> string list \<Rightarrow> step" where
  "restartAll env instances c =
     (case promiseAll (map (startEC2InstanceRestart env) instances) of
        (r, calls) \<Rightarrow> (r, c\<lparr>instanceCalls := instanceCalls c @ calls\<rparr>))"

definition instancesToRestart :: "reset_env \<Rightarrow> cloud \<Rightarrow> string list" where
  "instancesToRestart env c =
     (let instances =
            (case resourceIdOf (tables c) ''EC2_INSTANCE_1'' of None \<Rightarrow> [] | Some i \<Rightarrow> [i])
          @ (case resourceIdOf (tables c) ''EC2_INSTANCE_2'' of None \<Rightarrow> [] | Some i \<Rightarrow> [i])
      in if instances = [] \<and> truthy (MEMO_APP_INSTANCE_ID env)
         then [MEMO_APP_INSTANCE_ID env] else instances)"

definition forceRestartEC2InstancesWithStateChange :: "reset_env \<Rightarrow> step" where
  "forceRestartEC2InstancesWithStateChange env c =
     (let instances = instancesToRestart env c in
      if instances = [] then (Inr (), c)
      else andThen (restartAll env instances)
             (\<lambda>c'. (Inr (), c'\<lparr>tables := updateGameState ''Resetting'' (tables c')\<rparr>)) c)"

text \<open>\<open>stopRunningStepFunctions\<close>: at most 100 running executions are listed; an error of
  one stop call is logged and the others go on, and an error of the listing is logged and
  the reset goes on.\<close>

definition markAborted :: "string \<Rightarrow> (string \<times> execution_status) list \<Rightarrow> (string \<times> execution_status) list" where
  "markAborted arn xs = map (\<lambda>(a, s). if a = arn \<and> s = RUNNING then (a, ABORTED) else (a, s)) xs"

fun stopExecutions :: "reset_env \<Rightarrow> string list \<Rightarrow> cloud \<Rightarrow> cloud" where
  "stopExecutions env [] c = c"
| "stopExecutions env (executionArn # rest) c =
     (if truthy executionArn \<and> \<not> fails env (StopExecution executionArn)
      then stopExecutions env rest (c\<lparr>executions := markAborted executionArn (executions c)\<rparr>)
      else stopExecutions env rest c)"

definition listRunning :: "cloud \<Rightarrow> string list" where
  "listRunning c = take 100 (map fst (filter (\<lambda>(a, s). s = RUNNING) (executions c)))"

definition stopRunningStepFunctions :: "reset_env \<Rightarrow> cloud \<Rightarrow> cloud" where
  "stopRunningStepFunctions env c =
     (if \<not> truthy (OBSERVATION_STATE_MACHINE_ARN env) then c
      else if fails env ListExecutions then c
      else stopExecutions env (listRunning c) c)"

definition startObservationStateMachine :: "reset_env \<Rightarrow> step" where
  "startObservationStateMachine env c =
     (if \<not> truthy (OBSERVATION_STATE_MACHINE_ARN env) then (Inr (), c)
      else if fails env StartExecution then (Inr (), c)
      else (Inr (), c\<lparr>executions := executions c @ [(''reset-observation-'' @ now env, RUNNING)]\<rparr>))"

text \<open>The statements of the handler's \<open>try\<close> block after the check of the game state, in
  their order; \<open>runSteps\<close> awaits one after the other and stops at the first that throws.\<close>

definition resetSteps :: "reset_env \<Rightarrow> step list" where
  "resetSteps env =
     [resetSecurityGroups env, enableS3PublicAccessBlock env, enableCloudTrail env,
      resetIAMRole env, forceRestartEC2InstancesWithStateChange env,
      startObservationStateMachine env]"

fun runSteps :: "step list \<Rightarrow> step" where
  "runSteps [] c = (Inr (), c)"
| "runSteps (s # ss) c = andThen s (runSteps ss) c"

definition reset_handler :: "reset_env \<Rightarrow> cloud \<Rightarrow> response \<times> cloud" where
  "reset_handler env c =
     (let c0 = stopRunningStepFunctions env c;
          currentGameState = reset_getGameState (tables c0)
      in if currentGameState = ''Resetting''
         then (respond 409 ''Reset operation is currently in progress. Please wait 5-15 minutes for completion.'', c0)
         else (case runSteps (resetSteps env) c0 of
                 (Inl e, c') \<Rightarrow> (respond 500 ''Error resetting game'', c')
               | (Inr u, c') \<Rightarrow> (respond 202 ''Reset process initiated. AWS resources have been reset and EC2 instances are restarting. The system will automatically return to Ready state once all components are verified as healthy.'', c')))"

text \<open>
  The route \<open>game-reset\<close> of the API (\<open>api.ts\<close>), once the authorizer has let the request
  through: a non-proxy integration that invokes the reset function with invocation type
  \<open>Event\<close> and has one integration response, 202. The caller is answered 202 whatever the
  handler returns; what the invocation does is what the handler does.
\<close>

definition game_reset_route :: "reset_env \<Rightarrow> cloud \<Rightarrow> nat \<times> cloud" where
  "game_reset_route env c = (202, snd (reset_handler env c))"

text \<open>The Component Ledger: both scenario tables.\<close>

definition ledger :: "cloud \<Rightarrow> (string \<times> string) list \<times> (string \<times> string) list" where
  "ledger c = (securityTable (tables c), resilienceTable (tables c))"

subsection \<open>Concrete inputs\<close>

text \<open>The tables as \<open>init-data\<close> fills them, and the runs and environments the closed theorems below evaluate.\<close>

definition initial_db :: db where
  "initial_db =
     \<lparr>gameStateTable = [''default'' \<mapsto> ''Ready''],
      securityTable = [(''ALB SG'', ''Green''), (''EC2 SG'', ''Green''), (''EC2 Role'', ''Green''),
                       (''S3'', ''Green''), (''RDS SG'', ''Green''), (''CloudTrail'', ''Green'')],
      resilienceTable = [(''EC2'', ''Green''), (''ALB SG'', ''Green''), (''EC2 SG'', ''Green''),
                         (''EC2 Process'', ''Green'')],
      resourceMapping = Map.empty\<rparr>"

definition ongoing_db :: db where
  "ongoing_db =
     updateGameState ''Ongoing''
       (updateComponentState SecurityScenarioTable ''S3'' ''Red''
          (updateComponentState SecurityScenarioTable ''ALB SG'' ''Red'' initial_db))"

definition healthy_checks :: checks where
  "healthy_checks ob = (if ob = SecurityEc2role then Inr True else Inr False)"

definition albsg_throws :: checks where
  "albsg_throws ob =
     (if ob = SecurityAlbsg
      then Inl (Thrown ''ALB security group ID not found in resource mapping table'')
      else healthy_checks ob)"

definition flaky_checks :: "nat \<Rightarrow> checks" where
  "flaky_checks n = (if n = 0 then albsg_throws else healthy_checks)"

definition s3_open :: checks where
  "s3_open ob = (if ob = SecurityS3 then Inr True else healthy_checks ob)"

definition albsg_s3_open :: checks where
  "albsg_s3_open ob = (if ob = SecurityAlbsg then Inr True else s3_open ob)"

definition relapse_checks :: "nat \<Rightarrow> checks" where
  "relapse_checks n = (if n = 0 then s3_open else albsg_s3_open)"

definition healthy_always :: "nat \<Rightarrow> checks" where
  "healthy_always n = healthy_checks"


definition polling_execution :: execution_state where
  "polling_execution = startExecution\<lparr>current := ObservationParallel, gameId := ''default''\<rparr>"

definition quiet_env :: inject_env where
  "quiet_env =
     \<lparr>random = 0,
      injectVulnerability = (\<lambda>resourceType info. Inr ()),
      stopInstances = (\<lambda>i. SdkOk),
      revokeIngress = (\<lambda>g p. SdkOk),
      sendCommand = (\<lambda>i. SdkOk),
      ALB_SECURITY_GROUP_ID = []\<rparr>"


definition sshOpen :: ip_permission where
  "sshOpen =
     \<lparr>IpProtocol = ''tcp'', FromPort = 22, ToPort = 22,
      IpRanges = [(''0.0.0.0/0'', [])], UserIdGroupPairs = []\<rparr>"

definition reset_db :: db where
  "reset_db =
     \<lparr>gameStateTable = [''default'' \<mapsto> ''Ongoing''],
      securityTable = [(''ALB SG'', ''Red''), (''S3'', ''Red'')],
      resilienceTable = [(''EC2'', ''Green'')],
      resourceMapping =
        [''ALB_SG'' \<mapsto> \<lparr>ResourceId = ''sg-alb'', ResourceArn = [], ResourceName = []\<rparr>,
         ''EC2_SG'' \<mapsto> \<lparr>ResourceId = ''sg-ec2'', ResourceArn = [], ResourceName = []\<rparr>,
         ''RDS_SG'' \<mapsto> \<lparr>ResourceId = ''sg-rds'', ResourceArn = [], ResourceName = []\<rparr>,
         ''S3_BUCKET'' \<mapsto> \<lparr>ResourceId = ''bucket'', ResourceArn = [], ResourceName = []\<rparr>,
         ''CLOUDTRAIL'' \<mapsto> \<lparr>ResourceId = ''trail'', ResourceArn = [], ResourceName = []\<rparr>,
         ''EC2_INSTANCE_1'' \<mapsto> \<lparr>ResourceId = ''i-1'', ResourceArn = [], ResourceName = []\<rparr>,
         ''EC2_INSTANCE_2'' \<mapsto> \<lparr>ResourceId = ''i-2'', ResourceArn = [], ResourceName = []\<rparr>]\<rparr>"

definition faulted_cloud :: cloud where
  "faulted_cloud =
     \<lparr>tables = reset_db,
      securityGroups =
        [''sg-alb'' \<mapsto> [albBaseline, sshOpen],
         ''sg-ec2'' \<mapsto> [ec2Baseline ''sg-alb''],
         ''sg-rds'' \<mapsto> []],
      publicAccessBlocks =
        [''bucket'' \<mapsto> \<lparr>BlockPublicAcls = False, BlockPublicPolicy = False,
                          IgnorePublicAcls = False, RestrictPublicBuckets = False\<rparr>],
      trails = [''trail'' \<mapsto> \<lparr>IsLogging = False, IsMultiRegionTrail = True,
                               IncludeGlobalServiceEvents = True\<rparr>],
      associations = [],
      instanceCalls = [],
      executions = [(''exec-1'', RUNNING)]\<rparr>"

definition ok_env :: reset_env where
  "ok_env =
     \<lparr>fails = (\<lambda>call. False),
      tagSearch = (\<lambda>logicalId. None),
      instanceStateAt = (\<lambda>i t. if t < 10 then Some ''running'' else Some ''stopped''),
      OBSERVATION_STATE_MACHINE_ARN = ''arn:observation'',
      MEMO_APP_INSTANCE_ID = [],
      MEMO_APP_BUCKET_NAME = [],
      MEMO_APP_CLOUDTRAIL_NAME = [],
      MEMO_APP_EC2_ROLE_NAME = [],
      now = ''1''\<rparr>"

definition sgfail_env :: reset_env where
  "sgfail_env = ok_env\<lparr>fails := (\<lambda>call. call = AuthorizeSecurityGroupIngress ''sg-alb'')\<rparr>"

definition s3fail_env :: reset_env where
  "s3fail_env = ok_env\<lparr>fails := (\<lambda>call. call = PutPublicAccessBlock)\<rparr>"

definition trailfail_env :: reset_env where
  "trailfail_env = ok_env\<lparr>fails := (\<lambda>call. call = UpdateTrail)\<rparr>"

definition restartfail_env :: reset_env where
  "restartfail_env = ok_env\<lparr>fails := (\<lambda>call. call = StartInstances ''i-1'')\<rparr>"

definition allfail_env :: reset_env where
  "allfail_env = ok_env\<lparr>fails := (\<lambda>call. True)\<rparr>"

definition resetting_cloud :: cloud where
  "resetting_cloud =
     faulted_cloud\<lparr>tables := updateGameState ''Resetting'' reset_db,
                    executions := [(''exec-1'', ABORTED), (''reset-observation-1'', RUNNING)]\<rparr>"

section \<open>Properties\<close>

subsection \<open>Observation\<close>

lemmas concrete_defs =
  polling_execution_def Let_def
  initial_db_def ongoing_db_def healthy_checks_def albsg_throws_def flaky_checks_def
  s3_open_def albsg_s3_open_def relapse_checks_def healthy_always_def
  updateGameState_def updateComponentState_def currentState_def scenarioItems_def
  getGameState_def handler_observer_def currentStateOf_def observationParallel_def
  functionNameArray_def sfn_step_def startExecution_def isGameEndCondition_def
  waitInLoop_seconds_def allGreen_def


lemma currentState_update:
  "currentState t c (updateComponentState t' c' s w) =
     (if t = t' \<and> c = c' then Some s else currentState t c w)"
  by (cases t; cases t')
     (simp_all add: currentState_def updateComponentState_def scenarioItems_def update_conv')

lemma gameStateTable_update [simp]:
  "gameStateTable (updateComponentState t c s w) = gameStateTable w"
  by (cases t) (simp_all add: updateComponentState_def)

lemma handler_observer_other:
  "(t, c) \<noteq> observerKey ob \<Longrightarrow>
   currentState t c (snd (handler_observer chk ob w)) = currentState t c w"
  by (auto simp: handler_observer_def observerKey_def currentState_update Let_def split: sum.splits)

lemma handler_observer_gameState [simp]:
  "gameStateTable (snd (handler_observer chk ob w)) = gameStateTable w"
  by (simp add: handler_observer_def Let_def split: sum.splits)

lemma handler_observer_Inr:
  "handler_observer chk ob w = (Inr b, w') \<Longrightarrow>
   (\<exists>v. chk ob = Inr v \<and> currentState (observerTable ob) (observerComponent ob) w' = Some (currentStateOf ob v)
     \<and> b = (currentStateOf ob v = ''Green''))"
  by (auto simp: handler_observer_def currentState_update Let_def split: sum.splits)

lemma handler_observer_Inl:
  "chk ob = Inl e \<Longrightarrow> handler_observer chk ob w = (Inl e, w)"
  by (simp add: handler_observer_def)

lemma snd_runBranches_Cons:
  "snd (runBranches chk (ob # obs) w) = snd (runBranches chk obs (snd (handler_observer chk ob w)))"
  by (cases "handler_observer chk ob w"; cases "fst (handler_observer chk ob w)";
      cases "runBranches chk obs (snd (handler_observer chk ob w))";
      cases "fst (runBranches chk obs (snd (handler_observer chk ob w)))") auto

lemma runBranches_other:
  "(t, c) \<notin> observerKey ` set obs \<Longrightarrow>
   currentState t c (snd (runBranches chk obs w)) = currentState t c w"
proof (induction obs arbitrary: w)
  case Nil
  then show ?case by simp
next
  case (Cons ob obs)
  have "currentState t c (snd (runBranches chk obs (snd (handler_observer chk ob w))))
        = currentState t c (snd (handler_observer chk ob w))"
    using Cons by simp
  also have "\<dots> = currentState t c w"
    using handler_observer_other [of t c ob chk w] Cons.prems by simp
  finally show ?case by (simp only: snd_runBranches_Cons)
qed

lemma runBranches_gameState [simp]:
  "gameStateTable (snd (runBranches chk obs w)) = gameStateTable w"
proof (induction obs arbitrary: w)
  case Nil
  then show ?case by simp
next
  case (Cons ob obs)
  then show ?case by (simp only: snd_runBranches_Cons handler_observer_gameState)
qed

lemma runBranches_Inr:
  "runBranches chk obs w = (Inr out, w') \<Longrightarrow> distinct (map observerKey obs) \<Longrightarrow>
   list_all2 (\<lambda>b ob. \<exists>v. chk ob = Inr v
        \<and> currentState (observerTable ob) (observerComponent ob) w' = Some (currentStateOf ob v)
        \<and> b = (currentStateOf ob v = ''Green'')) out obs"
proof (induction obs arbitrary: w out)
  case Nil
  then show ?case by simp
next
  case (Cons ob obs)
  from Cons.prems(1) obtain b w1 bs where
    h: "handler_observer chk ob w = (Inr b, w1)" and
    r: "runBranches chk obs w1 = (Inr bs, w')" and o: "out = b # bs"
    by (auto split: sum.splits prod.splits)
  from handler_observer_Inr [OF h] obtain v where
    v: "chk ob = Inr v" "currentState (observerTable ob) (observerComponent ob) w1 = Some (currentStateOf ob v)"
       "b = (currentStateOf ob v = ''Green'')" by blast
  have "observerKey ob \<notin> observerKey ` set obs" using Cons.prems(2) by simp
  then have "currentState (observerTable ob) (observerComponent ob) (snd (runBranches chk obs w1))
      = currentState (observerTable ob) (observerComponent ob) w1"
    using runBranches_other [of "observerTable ob" "observerComponent ob" obs chk w1]
    by (simp add: observerKey_def)
  with r v have hd: "currentState (observerTable ob) (observerComponent ob) w' = Some (currentStateOf ob v)"
    by simp
  have tl: "list_all2 (\<lambda>b ob. \<exists>v. chk ob = Inr v
        \<and> currentState (observerTable ob) (observerComponent ob) w' = Some (currentStateOf ob v)
        \<and> b = (currentStateOf ob v = ''Green'')) bs obs"
    using Cons.IH [OF r] Cons.prems(2) by simp
  show ?case using o v hd tl by auto
qed

lemma runBranches_Inl:
  "ob \<in> set obs \<Longrightarrow> chk ob = Inl e \<Longrightarrow> \<exists>e'. fst (runBranches chk obs w) = Inl e'"
proof (induction obs arbitrary: w)
  case Nil
  then show ?case by simp
next
  case (Cons a obs)
  show ?case
  proof (cases "a = ob")
    case True
    then show ?thesis using Cons.prems handler_observer_Inl [of chk ob e w] by simp
  next
    case False
    then have "ob \<in> set obs" using Cons.prems by simp
    then have "\<And>w1. \<exists>e'. fst (runBranches chk obs w1) = Inl e'" using Cons by blast
    then show ?thesis
      by (auto split: sum.splits prod.splits) (metis fst_conv sum.distinct(1))
  qed
qed

lemma distinct_keys: "distinct (map observerKey functionNameArray)"
  by (simp add: functionNameArray_def observerKey_def)

lemma isGameEndCondition_iff: "isGameEndCondition out = list_all (\<lambda>v. v) out"
proof (induction out)
  case Nil
  then show ?case by (simp add: isGameEndCondition_def)
next
  case (Cons a out)
  have ne: "length (filter (\<lambda>v. v) out) \<noteq> Suc (length out)"
    using length_filter_le [of "\<lambda>v. v" out] by linarith
  show ?case using Cons ne by (cases a) (simp_all add: isGameEndCondition_def)
qed

lemma list_all2_allGreen:
  assumes "list_all2 (\<lambda>b ob. \<exists>v. chk ob = Inr v
        \<and> currentState (observerTable ob) (observerComponent ob) w' = Some (currentStateOf ob v)
        \<and> b = (currentStateOf ob v = ''Green'')) out obs"
  shows "list_all (\<lambda>v. v) out =
     list_all (\<lambda>ob. currentState (observerTable ob) (observerComponent ob) w' = Some ''Green'') obs"
  using assms by (induction rule: list_all2_induct) auto

lemma parallel_converged:
  assumes "observationParallel chk w = (Inr out, w')"
  shows "isGameEndCondition out = allGreen w'"
proof -
  have "list_all2 (\<lambda>b ob. \<exists>v. chk ob = Inr v
        \<and> currentState (observerTable ob) (observerComponent ob) w' = Some (currentStateOf ob v)
        \<and> b = (currentStateOf ob v = ''Green'')) out functionNameArray"
    using assms runBranches_Inr [OF _ distinct_keys] by (simp add: observationParallel_def)
  then show ?thesis
    unfolding isGameEndCondition_iff allGreen_def by (rule list_all2_allGreen)
qed

text \<open>
  Claim C1. In every polling iteration whose observers all return, the execution moves to
  \<open>nofityGameEnd\<close>, which writes \<open>Ready\<close> to the game-state item and ends the run, exactly
  when every polled component reads \<open>Green\<close> in the tables after the iteration's writes;
  otherwise the game state is left as it was, the execution waits one second and runs the
  Parallel state again.
\<close>

theorem convergence_iff_all_green:
  assumes "current e = ObservationParallel"
    and "observationParallel (chks (polls e)) w = (Inr out, w')"
  shows "snd (sfn_step input chks (e, w)) = w'
    \<and> (current (fst (sfn_run 2 input chks (e, w))) = NofityGameEnd \<longleftrightarrow> allGreen w')
    \<and> (allGreen w' \<longrightarrow>
          current (fst (sfn_run 3 input chks (e, w))) = ExecutionSucceeded
        \<and> gameStateTable (snd (sfn_run 3 input chks (e, w))) (gameId e) = Some ''Ready'')
    \<and> (\<not> allGreen w' \<longrightarrow>
          current (fst (sfn_run 2 input chks (e, w))) = Wait
        \<and> current (fst (sfn_run 3 input chks (e, w))) = ObservationParallel
        \<and> waited (fst (sfn_run 3 input chks (e, w))) = waited e + 1
        \<and> gameStateTable (snd (sfn_run 3 input chks (e, w))) = gameStateTable w)"
proof -
  have c: "isGameEndCondition out = allGreen w'" using assms(2) by (rule parallel_converged)
  have g: "gameStateTable w' = gameStateTable w"
    using assms(2) runBranches_gameState [of "chks (polls e)" functionNameArray w]
    by (simp add: observationParallel_def)
  show ?thesis using assms c g
    by (simp add: numeral_2_eq_2 numeral_3_eq_3 sfn_step_def waitInLoop_seconds_def)
qed


lemma observerKey_inj: "observerKey a = observerKey b \<Longrightarrow> a = b"
  by (cases a; cases b) (simp_all add: observerKey_def)

lemma runBranches_failed_entry:
  "chk ob = Inl e \<Longrightarrow>
   currentState (observerTable ob) (observerComponent ob) (snd (runBranches chk obs w))
     = currentState (observerTable ob) (observerComponent ob) w"
proof (induction obs arbitrary: w)
  case Nil
  then show ?case by simp
next
  case (Cons a obs)
  have "currentState (observerTable ob) (observerComponent ob) (snd (handler_observer chk a w))
        = currentState (observerTable ob) (observerComponent ob) w"
  proof (cases "a = ob")
    case True
    then show ?thesis using Cons.prems by (simp add: handler_observer_Inl)
  next
    case False
    then have "(observerTable ob, observerComponent ob) \<noteq> observerKey a"
      using observerKey_inj [of ob a] by (auto simp: observerKey_def)
    then show ?thesis by (rule handler_observer_other)
  qed
  then show ?case using Cons by (simp only: snd_runBranches_Cons)
qed

lemma sfn_run_failed:
  "current e = ExecutionFailed err \<Longrightarrow> sfn_run n input chks (e, w) = (e, w)"
  by (induction n) (simp_all add: sfn_step_def)

text \<open>
  Claim C7, amended. An observer whose check throws or times out writes nothing to its
  component's entry and returns no result. The iteration does not declare convergence:
  the game state is never written. But the error is not taken as "still faulted": it
  fails the Parallel state, and the execution stays failed, so the polling run ends.
\<close>

theorem observer_error_ends_run:
  assumes "current e = ObservationParallel"
    and "ob \<in> set functionNameArray"
    and "chks (polls e) ob = Inl err"
  shows "(\<exists>err'. current (fst (sfn_run (Suc n) input chks (e, w))) = ExecutionFailed err')
    \<and> gameStateTable (snd (sfn_run (Suc n) input chks (e, w))) = gameStateTable w
    \<and> currentState (observerTable ob) (observerComponent ob) (snd (sfn_run (Suc n) input chks (e, w)))
        = currentState (observerTable ob) (observerComponent ob) w"
proof -
  obtain r w' where p: "observationParallel (chks (polls e)) w = (r, w')"
    by (cases "observationParallel (chks (polls e)) w")
  from runBranches_Inl [where chk = "chks (polls e)" and ob = ob and e = err
      and obs = functionNameArray and w = w] assms(2,3) p
  obtain e' where r: "r = Inl e'"
    by (auto simp: observationParallel_def)
  have w': "w' = snd (runBranches (chks (polls e)) functionNameArray w)"
    using p by (simp add: observationParallel_def)
  have s: "sfn_step input chks (e, w) = (e\<lparr>current := ExecutionFailed e', polls := Suc (polls e)\<rparr>, w')"
    using assms(1) p r by (simp add: sfn_step_def)
  have "sfn_run (Suc n) input chks (e, w) = (e\<lparr>current := ExecutionFailed e', polls := Suc (polls e)\<rparr>, w')"
    using s sfn_run_failed [of "e\<lparr>current := ExecutionFailed e', polls := Suc (polls e)\<rparr>" e' n input chks w']
    by simp
  then show ?thesis
    using w' assms(3) runBranches_failed_entry [where chk = "chks (polls e)" and ob = ob
        and e = err and obs = functionNameArray and w = w] by simp
qed

text \<open>
  Claim C7 as stated fails: the observer of the ALB security group throws in the first
  iteration only; the execution is failed after two transitions, never polls again and
  leaves the game \<open>Ongoing\<close>, although every later check would have been healthy.
\<close>

theorem observer_error_counterexample:
  "current (fst (sfn_run 2 ''default'' flaky_checks (startExecution, ongoing_db)))
     = ExecutionFailed (Thrown ''ALB security group ID not found in resource mapping table'')
   \<and> sfn_run 9 ''default'' flaky_checks (startExecution, ongoing_db)
     = sfn_run 2 ''default'' flaky_checks (startExecution, ongoing_db)
   \<and> polls (fst (sfn_run 9 ''default'' flaky_checks (startExecution, ongoing_db))) = 1
   \<and> getGameState (snd (sfn_run 9 ''default'' flaky_checks (startExecution, ongoing_db))) = Some ''Ongoing''"
proof -
  have two: "current (fst (sfn_run 2 ''default'' flaky_checks (startExecution, ongoing_db)))
     = ExecutionFailed (Thrown ''ALB security group ID not found in resource mapping table'')"
    by (simp add: numeral_2_eq_2 concrete_defs)
  have p: "polls (fst (sfn_run 2 ''default'' flaky_checks (startExecution, ongoing_db))) = 1"
    by (simp add: numeral_2_eq_2 concrete_defs)
  have g: "getGameState (snd (sfn_run 2 ''default'' flaky_checks (startExecution, ongoing_db))) = Some ''Ongoing''"
    by (simp add: numeral_2_eq_2 concrete_defs)
  have "sfn_run 9 ''default'' flaky_checks (startExecution, ongoing_db)
      = sfn_run 7 ''default'' flaky_checks (sfn_run 2 ''default'' flaky_checks (startExecution, ongoing_db))"
    by (simp add: eval_nat_numeral)
  also have "\<dots> = sfn_run 2 ''default'' flaky_checks (startExecution, ongoing_db)"
    using sfn_run_failed [OF two, of 7 "''default''" flaky_checks
        "snd (sfn_run 2 ''default'' flaky_checks (startExecution, ongoing_db))"]
    by simp
  finally show ?thesis using two p g by simp
qed

theorem observer_error_ends_run_witness:
  "current (startExecution\<lparr>current := ObservationParallel\<rparr>) = ObservationParallel
   \<and> SecurityAlbsg \<in> set functionNameArray
   \<and> flaky_checks (polls (startExecution\<lparr>current := ObservationParallel\<rparr>)) SecurityAlbsg
       = Inl (Thrown ''ALB security group ID not found in resource mapping table'')
   \<and> currentState SecurityScenarioTable ''ALB SG''
        (snd (sfn_run (Suc 4) ''default'' flaky_checks
               (startExecution\<lparr>current := ObservationParallel\<rparr>, ongoing_db))) = Some ''Red''
   \<and> gameStateTable (snd (sfn_run (Suc 4) ''default'' flaky_checks
               (startExecution\<lparr>current := ObservationParallel\<rparr>, ongoing_db))) ''default'' = Some ''Ongoing''"
proof -
  have h1: "current (startExecution\<lparr>current := ObservationParallel\<rparr>) = ObservationParallel" by simp
  have h2: "SecurityAlbsg \<in> set functionNameArray" by (simp add: functionNameArray_def)
  have h3: "flaky_checks (polls (startExecution\<lparr>current := ObservationParallel\<rparr>)) SecurityAlbsg
       = Inl (Thrown ''ALB security group ID not found in resource mapping table'')"
    by (simp add: flaky_checks_def albsg_throws_def startExecution_def)
  have s: "currentState SecurityScenarioTable ''ALB SG'' ongoing_db = Some ''Red''"
    by (simp add: concrete_defs)
  have g: "gameStateTable ongoing_db ''default'' = Some ''Ongoing''"
    by (simp add: concrete_defs)
  show ?thesis
    using observer_error_ends_run [where e = "startExecution\<lparr>current := ObservationParallel\<rparr>"
        and ob = SecurityAlbsg and chks = flaky_checks and n = 4 and input = "''default''"
        and w = ongoing_db
        and err = "Thrown ''ALB security group ID not found in resource mapping table''"]
      h1 h2 h3 s g
    by simp
qed

text \<open>
  Claim C8, amended. An iteration that completes sets the entry of every polled component
  to what this iteration's check found, whatever the entry was before: a component marked
  \<open>Green\<close> stays \<open>Green\<close> in a later iteration exactly when its check is still healthy
  then, and is marked \<open>Red\<close> again otherwise.
\<close>

theorem iteration_mirrors_check:
  assumes "current e = ObservationParallel"
    and "observationParallel (chks (polls e)) w = (Inr out, w')"
    and "ob \<in> set functionNameArray"
  shows "\<exists>v. chks (polls e) ob = Inr v
    \<and> currentState (observerTable ob) (observerComponent ob) (snd (sfn_step input chks (e, w)))
        = Some (currentStateOf ob v)"
proof -
  have "list_all2 (\<lambda>b ob. \<exists>v. chks (polls e) ob = Inr v
        \<and> currentState (observerTable ob) (observerComponent ob) w' = Some (currentStateOf ob v)
        \<and> b = (currentStateOf ob v = ''Green'')) out functionNameArray"
    using assms(2) runBranches_Inr [OF _ distinct_keys] by (simp add: observationParallel_def)
  then have "\<forall>ob \<in> set functionNameArray. \<exists>v. chks (polls e) ob = Inr v
        \<and> currentState (observerTable ob) (observerComponent ob) w' = Some (currentStateOf ob v)"
    by (induction rule: list_all2_induct) auto
  moreover have "snd (sfn_step input chks (e, w)) = w'"
    using assms(1,2) by (simp add: sfn_step_def)
  ultimately show ?thesis using assms(3) by simp
qed

text \<open>
  Claim C8 as stated fails: in one run, the first iteration marks the ALB security group
  \<open>Green\<close> (the bucket is still open, so the run goes on), and the second iteration, whose
  check finds the rule back, marks it \<open>Red\<close>.
\<close>

theorem remark_faulted_counterexample:
  "currentState SecurityScenarioTable ''ALB SG''
     (snd (sfn_run 2 ''default'' relapse_checks (startExecution, ongoing_db))) = Some ''Green''
   \<and> currentState SecurityScenarioTable ''ALB SG''
     (snd (sfn_run 5 ''default'' relapse_checks (startExecution, ongoing_db))) = Some ''Red''
   \<and> current (fst (sfn_run 5 ''default'' relapse_checks (startExecution, ongoing_db)))
     = IsGameEndChoice [False, True, True, True, True, False, True, True, True, True]
   \<and> polls (fst (sfn_run 5 ''default'' relapse_checks (startExecution, ongoing_db))) = 2"
  by (simp add: eval_nat_numeral concrete_defs)

theorem convergence_iff_all_green_witness:
  "current polling_execution = ObservationParallel
   \<and> observationParallel (healthy_always (polls polling_execution)) ongoing_db
       = (Inr [True, True, True, True, True, True, True, True, True, True],
          updateGameState ''Ongoing'' initial_db)
   \<and> allGreen (updateGameState ''Ongoing'' initial_db)
   \<and> current (fst (sfn_run 3 ''default'' healthy_always (polling_execution, ongoing_db)))
       = ExecutionSucceeded
   \<and> gameStateTable (snd (sfn_run 3 ''default'' healthy_always (polling_execution, ongoing_db)))
        ''default'' = Some ''Ready''"
proof -
  have h1: "current polling_execution = ObservationParallel"
    by (simp add: polling_execution_def)
  have h2: "observationParallel (healthy_always (polls polling_execution)) ongoing_db
       = (Inr [True, True, True, True, True, True, True, True, True, True],
          updateGameState ''Ongoing'' initial_db)"
    by (simp add: concrete_defs polling_execution_def)
  have g: "allGreen (updateGameState ''Ongoing'' initial_db)"
    by (simp add: concrete_defs)
  have i: "gameId polling_execution = ''default''"
    by (simp add: polling_execution_def)
  show ?thesis
    using convergence_iff_all_green [where e = polling_execution and chks = healthy_always
        and w = ongoing_db and input = "''default''"
        and out = "[True, True, True, True, True, True, True, True, True, True]"
        and w' = "updateGameState ''Ongoing'' initial_db"] h1 h2 g i
    by simp
qed

theorem iteration_mirrors_check_witness:
  "current polling_execution = ObservationParallel
   \<and> observationParallel (relapse_checks (polls polling_execution)) ongoing_db
       = (Inr [True, True, True, True, True, False, True, True, True, True],
          updateComponentState SecurityScenarioTable ''S3'' ''Red''
            (updateGameState ''Ongoing'' initial_db))
   \<and> SecurityS3 \<in> set functionNameArray
   \<and> currentState SecurityScenarioTable ''S3''
        (snd (sfn_step ''default'' relapse_checks (polling_execution, ongoing_db))) = Some ''Red''"
proof -
  have h1: "current polling_execution = ObservationParallel"
    by (simp add: polling_execution_def)
  have h2: "observationParallel (relapse_checks (polls polling_execution)) ongoing_db
       = (Inr [True, True, True, True, True, False, True, True, True, True],
          updateComponentState SecurityScenarioTable ''S3'' ''Red''
            (updateGameState ''Ongoing'' initial_db))"
    by (simp add: concrete_defs polling_execution_def)
  have h3: "SecurityS3 \<in> set functionNameArray"
    by (simp add: functionNameArray_def)
  have c: "relapse_checks (polls polling_execution) SecurityS3 = Inr True"
    by (simp add: concrete_defs polling_execution_def)
  show ?thesis
    using iteration_mirrors_check [where e = polling_execution and chks = relapse_checks
        and w = ongoing_db and input = "''default''" and ob = SecurityS3
        and out = "[True, True, True, True, True, False, True, True, True, True]"
        and w' = "updateComponentState SecurityScenarioTable ''S3'' ''Red''
            (updateGameState ''Ongoing'' initial_db)"] h1 h2 h3 c
    by (auto simp: currentStateOf_def)
qed

subsection \<open>Failure injection\<close>

lemma getGameState_updateComponentState [simp]:
  "getGameState (updateComponentState t c s w) = getGameState w"
  by (simp add: getGameState_def)

lemma resourceMapping_updateComponentState [simp]:
  "resourceMapping (updateComponentState t c s w) = resourceMapping w"
  by (cases t) (simp_all add: updateComponentState_def)

lemma currentState_updateGameState [simp]:
  "currentState t c (updateGameState s w) = currentState t c w"
  by (cases t) (simp_all add: currentState_def updateGameState_def scenarioItems_def)

lemma getGameState_updateGameState [simp]:
  "getGameState (updateGameState s w) = Some s"
  by (simp add: getGameState_def updateGameState_def)

text \<open>
  Claim C5. Whatever the category and the difficulty, an injection request that finds the
  game state different from \<open>Ready\<close> is answered with status 400 and leaves every table as
  it was: no ledger entry is written and the game state is unchanged.
\<close>

theorem inject_not_ready_no_effect:
  assumes "getGameState w \<noteq> Some ''Ready''"
  shows "statusCode (fst (inject cat d env w)) = 400 \<and> snd (inject cat d env w) = w"
  using assms
  by (cases cat; cases d)
     (simp_all add: security_easy_handler_def security_hard_handler_def
        resilience_easy_handler_def resilience_hard_handler_def gameNotReady_def respond_def)

theorem inject_not_ready_no_effect_witness:
  "getGameState ongoing_db \<noteq> Some ''Ready''
   \<and> statusCode (fst (inject Resilience Hard quiet_env ongoing_db)) = 400
   \<and> snd (inject Resilience Hard quiet_env ongoing_db) = ongoing_db"
proof -
  have h: "getGameState ongoing_db \<noteq> Some ''Ready''"
    by (simp add: ongoing_db_def)
  show ?thesis
    using inject_not_ready_no_effect [OF h, of Resilience Hard quiet_env] h by simp
qed

lemma security_hard_loop_gameState [simp]:
  "getGameState (security_hard_loop env cs w) = getGameState w"
  by (induction cs arbitrary: w) (simp_all add: Let_def split: sum.splits)

lemma security_hard_loop_mapping [simp]:
  "resourceMapping (security_hard_loop env cs w) = resourceMapping w"
  by (induction cs arbitrary: w) (simp_all add: Let_def split: sum.splits)

lemma security_hard_loop_other [simp]:
  "currentState ResilienceScenarioTable c (security_hard_loop env cs w)
     = currentState ResilienceScenarioTable c w"
  by (induction cs arbitrary: w) (simp_all add: Let_def currentState_update split: sum.splits)






lemma resilience_hard_loop_gameState [simp]:
  "getGameState (snd (resilience_hard_loop env cs (acc, w))) = getGameState w"
  by (induction cs arbitrary: acc w) (simp_all split: sum.splits)

lemma resilience_hard_loop_other [simp]:
  "currentState SecurityScenarioTable c (snd (resilience_hard_loop env cs (acc, w)))
     = currentState SecurityScenarioTable c w"
  by (induction cs arbitrary: acc w) (simp_all add: currentState_update split: sum.splits)






lemmas reset_defs =
  reset_handler_def stopRunningStepFunctions_def listRunning_def markAborted_def
  reset_getGameState_def resetSteps_def andThen_def succeed_def
  resetSecurityGroups_def getAlbSecurityGroup_def getEc2SecurityGroup_def
  getRdsSecurityGroup_def getSecurityGroupOf_def describeGroup_def
  resetAlbSecurityGroup_def resetEc2SecurityGroup_def resetRdsSecurityGroup_def
  revokeExisting_def revokeSecurityGroupIngress_def authorizeSecurityGroupIngress_def
  albBaseline_def ec2Baseline_def rdsBaseline_def
  enableS3PublicAccessBlock_def enablePublicAccessBlock_def
  enableCloudTrail_def enableTrailLogging_def startLoggingIfOff_def updateTrail_def
  resetIAMRole_def resetRole_def
  forceRestartEC2InstancesWithStateChange_def instancesToRestart_def
  startEC2InstanceRestart_def forceRestartInstance_def startInstance_def
  restartAll_def promiseAll_def
  waitForInstanceStopped.simps waitForInstanceRunning.simps
  startObservationStateMachine_def
  resourceIdOf_def getResourceInfo_def truthy_def updateGameState_def respond_def Let_def
  sshOpen_def reset_db_def faulted_cloud_def ok_env_def sgfail_env_def resetting_cloud_def
  s3fail_env_def trailfail_env_def restartfail_env_def allfail_env_def

subsection \<open>Reset\<close>

lemma andThen_ledger:
  assumes "\<And>c. ledger (snd (f c)) = ledger c" and "\<And>c. ledger (snd (g c)) = ledger c"
  shows "ledger (snd (andThen f g c)) = ledger c"
proof (cases "f c")
  case (Pair r c')
  have "ledger c' = ledger c" using assms(1) [of c] Pair by simp
  then show ?thesis using Pair assms(2) [of c'] by (cases r) (simp_all add: andThen_def)
qed

lemma revoke_ledger [simp]:
  "ledger (snd (revokeSecurityGroupIngress env g ps c)) = ledger c"
  by (simp add: revokeSecurityGroupIngress_def ledger_def split: option.splits)

lemma authorize_ledger [simp]:
  "ledger (snd (authorizeSecurityGroupIngress env g p c)) = ledger c"
  by (simp add: authorizeSecurityGroupIngress_def ledger_def split: option.splits)

lemma revokeExisting_ledger [simp]:
  "ledger (snd (revokeExisting env sg c)) = ledger c"
  by (simp add: revokeExisting_def succeed_def)

lemma resetAlb_ledger [simp]: "ledger (snd (resetAlbSecurityGroup env sg c)) = ledger c"
  unfolding resetAlbSecurityGroup_def by (rule andThen_ledger) simp_all

lemma resetEc2_ledger [simp]: "ledger (snd (resetEc2SecurityGroup env sg a c)) = ledger c"
  unfolding resetEc2SecurityGroup_def by (rule andThen_ledger) simp_all

lemma resetRds_ledger [simp]: "ledger (snd (resetRdsSecurityGroup env sg a c)) = ledger c"
  unfolding resetRdsSecurityGroup_def by (rule andThen_ledger) simp_all

lemma resetSecurityGroups_ledger [simp]:
  "ledger (snd (resetSecurityGroups env c)) = ledger c"
proof -
  have a: "\<And>sg c c1 r. resetAlbSecurityGroup env sg c = (r, c1) \<Longrightarrow> ledger c1 = ledger c"
    using resetAlb_ledger by (metis snd_conv)
  have b: "\<And>sg x c c1 r. resetEc2SecurityGroup env sg x c = (r, c1) \<Longrightarrow> ledger c1 = ledger c"
    using resetEc2_ledger by (metis snd_conv)
  show ?thesis
    by (auto simp: resetSecurityGroups_def split: sum.splits prod.splits dest!: a b)
qed

lemma enableS3_ledger [simp]:
  "ledger (snd (enableS3PublicAccessBlock env c)) = ledger c"
  by (simp add: enableS3PublicAccessBlock_def enablePublicAccessBlock_def ledger_def
      split: option.splits)

lemma startLoggingIfOff_ledger [simp]:
  "ledger (snd (startLoggingIfOff env n t c)) = ledger c"
  by (simp add: startLoggingIfOff_def ledger_def)

lemma updateTrail_ledger [simp]:
  "ledger (snd (updateTrail env n c)) = ledger c"
  by (simp add: updateTrail_def ledger_def split: option.splits)

lemma enableTrailLogging_ledger [simp]:
  "ledger (snd (enableTrailLogging env n c)) = ledger c"
  by (simp add: enableTrailLogging_def andThen_ledger split: option.splits)

lemma enableCloudTrail_ledger [simp]:
  "ledger (snd (enableCloudTrail env c)) = ledger c"
  by (simp add: enableCloudTrail_def split: option.splits)

lemma replaceAssociations_ledger [simp]:
  "ledger (replaceAssociations env arn as c) = ledger c"
  by (induction as arbitrary: c) (simp_all add: ledger_def)

lemma resetRole_ledger [simp]: "ledger (resetRole env r c) = ledger c"
  by (simp add: resetRole_def split: option.splits prod.splits)

lemma resetIAMRole_ledger [simp]: "ledger (snd (resetIAMRole env c)) = ledger c"
  by (simp add: resetIAMRole_def split: option.splits)

lemma restartAll_ledger [simp]: "ledger (snd (restartAll env is c)) = ledger c"
  by (simp add: restartAll_def ledger_def split: prod.splits)

lemma ledger_updateGameState [simp]:
  "ledger (c\<lparr>tables := updateGameState s (tables c)\<rparr>) = ledger c"
  by (simp add: ledger_def updateGameState_def)

lemma forceRestartAll_ledger [simp]:
  "ledger (snd (forceRestartEC2InstancesWithStateChange env c)) = ledger c"
  by (simp add: forceRestartEC2InstancesWithStateChange_def Let_def andThen_ledger)

lemma startObservation_ledger [simp]:
  "ledger (snd (startObservationStateMachine env c)) = ledger c"
  by (simp add: startObservationStateMachine_def ledger_def)

lemma runSteps_ledger:
  "(\<And>s c. s \<in> set ss \<Longrightarrow> ledger (snd (s c)) = ledger c) \<Longrightarrow> ledger (snd (runSteps ss c)) = ledger c"
proof (induction ss arbitrary: c)
  case Nil
  then show ?case by simp
next
  case (Cons s ss)
  have "ledger (snd (andThen s (runSteps ss) c)) = ledger c"
    by (rule andThen_ledger) (use Cons in simp_all)
  then show ?case by simp
qed

lemma stopExecutions_frame:
  "\<exists>ex. stopExecutions env xs c = c\<lparr>executions := ex\<rparr>"
proof (induction xs arbitrary: c)
  case Nil
  have "c = c\<lparr>executions := executions c\<rparr>" by simp
  then show ?case by (metis stopExecutions.simps(1))
next
  case (Cons a xs)
  show ?case
  proof (cases "truthy a \<and> \<not> fails env (StopExecution a)")
    case True
    from Cons [of "c\<lparr>executions := markAborted a (executions c)\<rparr>"]
    obtain ex where "stopExecutions env xs (c\<lparr>executions := markAborted a (executions c)\<rparr>)
        = c\<lparr>executions := markAborted a (executions c)\<rparr>\<lparr>executions := ex\<rparr>" by blast
    then show ?thesis using True by (intro exI [of _ ex]) simp
  next
    case False
    then show ?thesis using Cons [of c] by auto
  qed
qed

lemma stopRunning_frame:
  "stopRunningStepFunctions env c = c\<lparr>executions := executions (stopRunningStepFunctions env c)\<rparr>"
proof -
  obtain ex where "stopExecutions env (listRunning c) c = c\<lparr>executions := ex\<rparr>"
    using stopExecutions_frame by blast
  then show ?thesis by (simp add: stopRunningStepFunctions_def)
qed

lemma stopRunning_tables [simp]: "tables (stopRunningStepFunctions env c) = tables c"
  using stopRunning_frame [of env c] by (metis cloud.select_convs(1) cloud.surjective cloud.update_convs(7))

lemma stopRunning_ledger [simp]: "ledger (stopRunningStepFunctions env c) = ledger c"
  by (simp add: ledger_def)

lemma reset_handler_ledger: "ledger (snd (reset_handler env c)) = ledger c"
proof -
  have "ledger (snd (runSteps (resetSteps env) (stopRunningStepFunctions env c)))
        = ledger (stopRunningStepFunctions env c)"
    by (rule runSteps_ledger) (auto simp: resetSteps_def)
  then show ?thesis
    by (cases "runSteps (resetSteps env) (stopRunningStepFunctions env c)";
        cases "fst (runSteps (resetSteps env) (stopRunningStepFunctions env c))")
       (simp_all add: reset_handler_def Let_def)
qed

lemma markAborted_names [simp]: "map fst (markAborted a xs) = map fst xs"
  by (induction xs) (auto simp: markAborted_def)

lemma markAborted_running:
  "(b, RUNNING) \<in> set (markAborted a xs) \<Longrightarrow> (b, RUNNING) \<in> set xs \<and> b \<noteq> a"
  by (auto simp: markAborted_def split: if_splits)

lemma stopExecutions_names [simp]:
  "map fst (executions (stopExecutions env xs c)) = map fst (executions c)"
  by (induction xs arbitrary: c) simp_all

lemma stopExecutions_running:
  assumes "(b, RUNNING) \<in> set (executions (stopExecutions env xs c))"
    and "\<forall>a \<in> set xs. truthy a \<and> \<not> fails env (StopExecution a)"
  shows "(b, RUNNING) \<in> set (executions c) \<and> b \<notin> set xs"
  using assms
proof (induction xs arbitrary: c)
  case Nil
  then show ?case by simp
next
  case (Cons a xs)
  have ok: "truthy a \<and> \<not> fails env (StopExecution a)" using Cons.prems(2) by simp
  have "(b, RUNNING) \<in> set (executions (c\<lparr>executions := markAborted a (executions c)\<rparr>))
        \<and> b \<notin> set xs"
    using Cons.IH [of "c\<lparr>executions := markAborted a (executions c)\<rparr>"] Cons.prems ok by simp
  then show ?case using markAborted_running [of b a "executions c"] by simp
qed

lemma listRunning_all:
  assumes "length (filter (\<lambda>(a, s). s = RUNNING) (executions c)) \<le> 100"
    and "(b, RUNNING) \<in> set (executions c)"
  shows "b \<in> set (listRunning c)"
proof -
  have "(b, RUNNING) \<in> set (filter (\<lambda>(a, s). s = RUNNING) (executions c))"
    using assms(2) by simp
  then have "b \<in> set (map fst (filter (\<lambda>(a, s). s = RUNNING) (executions c)))"
    by force
  then show ?thesis using assms(1) by (simp add: listRunning_def)
qed

lemma listRunning_subset:
  "a \<in> set (listRunning c) \<Longrightarrow> \<exists>s. (a, s) \<in> set (executions c)"
  by (auto simp: listRunning_def dest!: in_set_takeD) blast

lemma stopRunning_names [simp]:
  "map fst (executions (stopRunningStepFunctions env c)) = map fst (executions c)"
  by (simp add: stopRunningStepFunctions_def)

lemma stopRunning_all_stopped:
  assumes "truthy (OBSERVATION_STATE_MACHINE_ARN env)"
    and "\<not> fails env ListExecutions"
    and "\<forall>a. \<not> fails env (StopExecution a)"
    and "\<forall>(a, s) \<in> set (executions c). truthy a"
    and "length (filter (\<lambda>(a, s). s = RUNNING) (executions c)) \<le> 100"
  shows "\<forall>(a, s) \<in> set (executions (stopRunningStepFunctions env c)). s \<noteq> RUNNING"
proof -
  have ok: "\<forall>a \<in> set (listRunning c). truthy a \<and> \<not> fails env (StopExecution a)"
    using assms(3,4) listRunning_subset [of _ c] by fastforce
  have "(b, RUNNING) \<notin> set (executions (stopExecutions env (listRunning c) c))" for b
    using stopExecutions_running [OF _ ok, of b] listRunning_all [OF assms(5), of b] by blast
  then show ?thesis using assms(1,2) by (auto simp: stopRunningStepFunctions_def)
qed

lemma reset_getGameState_stop [simp]:
  "reset_getGameState (tables (stopRunningStepFunctions env c)) = reset_getGameState (tables c)"
  by simp

text \<open>
  Claim C9. A reset that finds the game state \<open>Resetting\<close> has stopped the running
  executions before it looks at the state: it answers 409, and the state it leaves is the
  one \<open>stopRunningStepFunctions\<close> left, which differs from the state before only in the
  statuses of the executions. No resource is restored, no table is written and no
  execution is added; when the Step Functions calls succeed (and at most 100 executions
  are running), no execution is running afterwards, the confirmation pass included.
\<close>

theorem reset_while_resetting:
  assumes "reset_getGameState (tables c) = ''Resetting''"
  shows "statusCode (fst (reset_handler env c)) = 409
    \<and> snd (reset_handler env c) = stopRunningStepFunctions env c
    \<and> snd (reset_handler env c) = c\<lparr>executions := executions (snd (reset_handler env c))\<rparr>
    \<and> map fst (executions (snd (reset_handler env c))) = map fst (executions c)
    \<and> (truthy (OBSERVATION_STATE_MACHINE_ARN env) \<and> \<not> fails env ListExecutions
         \<and> (\<forall>a. \<not> fails env (StopExecution a))
         \<and> (\<forall>(a, s) \<in> set (executions c). truthy a)
         \<and> length (filter (\<lambda>(a, s). s = RUNNING) (executions c)) \<le> 100
       \<longrightarrow> (\<forall>(a, s) \<in> set (executions (snd (reset_handler env c))). s \<noteq> RUNNING))"
proof -
  have s: "snd (reset_handler env c) = stopRunningStepFunctions env c"
    and r: "statusCode (fst (reset_handler env c)) = 409"
    using assms by (simp_all add: reset_handler_def Let_def respond_def)
  show ?thesis
    using r s stopRunning_frame [of env c] stopRunning_all_stopped [of env c]
    by (simp only: stopRunning_names) blast
qed

lemma filter_out_all [simp]: "filter (\<lambda>r. r \<notin> set ps) ps = []"
  by (induction ps) auto

lemma reset_group_rules:
  assumes "andThen (revokeExisting env sg) (authorizeSecurityGroupIngress env (GroupId sg) base) c
             = (Inr (), c1)"
    and "securityGroups c (GroupId sg) = Some (IpPermissions sg)"
  shows "securityGroups c1 = (securityGroups c)(GroupId sg \<mapsto> [base]) \<and> tables c1 = tables c"
  using assms
  by (auto simp: andThen_def revokeExisting_def succeed_def revokeSecurityGroupIngress_def
      authorizeSecurityGroupIngress_def split: if_splits option.splits prod.splits sum.splits)

lemma describeGroup_rules:
  "describeGroup env c request g = Inr sg \<Longrightarrow>
   GroupId sg = g \<and> securityGroups c g = Some (IpPermissions sg)"
  by (auto simp: describeGroup_def split: if_splits option.splits)

lemma getSecurityGroupOf_rules:
  "getSecurityGroupOf rt lid env c = Inr sg \<Longrightarrow>
   securityGroups c (GroupId sg) = Some (IpPermissions sg)"
  by (auto simp: getSecurityGroupOf_def split: option.splits sum.splits if_splits
      dest: describeGroup_rules)

lemma describeGroup_stable:
  assumes "dom (securityGroups c1) = dom (securityGroups c)"
  shows "map_sum id GroupId (describeGroup env c1 request g)
         = map_sum id GroupId (describeGroup env c request g)"
proof -
  have "(securityGroups c1 g = None) = (securityGroups c g = None)"
    using assms by (metis domIff)
  then show ?thesis
    by (cases "securityGroups c1 g"; cases "securityGroups c g") (simp_all add: describeGroup_def)
qed

lemma getSecurityGroupOf_stable:
  assumes "tables c1 = tables c" and "dom (securityGroups c1) = dom (securityGroups c)"
  shows "map_sum id GroupId (getSecurityGroupOf rt lid env c1)
         = map_sum id GroupId (getSecurityGroupOf rt lid env c)"
proof -
  have d: "\<And>request g. map_sum id GroupId (describeGroup env c1 request g)
         = map_sum id GroupId (describeGroup env c request g)"
    using assms(2) by (rule describeGroup_stable)
  show ?thesis
  proof (cases "resourceIdOf (tables c) rt")
    case None
    then show ?thesis
      using assms(1) d by (simp add: getSecurityGroupOf_def split: option.splits)
  next
    case (Some g)
    show ?thesis
    proof (cases "describeGroup env c g g")
      case (Inl e)
      then obtain e1 where "describeGroup env c1 g g = Inl e1"
        using d [of g g] by (cases "describeGroup env c1 g g") simp_all
      then show ?thesis
        using assms(1) d Some Inl by (simp add: getSecurityGroupOf_def split: option.splits)
    next
      case (Inr sg)
      then obtain sg1 where "describeGroup env c1 g g = Inr sg1" "GroupId sg1 = GroupId sg"
        using d [of g g] by (cases "describeGroup env c1 g g") simp_all
      then show ?thesis
        using assms(1) Some Inr by (simp add: getSecurityGroupOf_def)
    qed
  qed
qed

lemma getSecurityGroupOf_same_id:
  assumes "tables c1 = tables c" and "dom (securityGroups c1) = dom (securityGroups c)"
    and "getSecurityGroupOf rt lid env c = Inr sg"
    and "getSecurityGroupOf rt lid env c1 = Inr sg1"
  shows "GroupId sg1 = GroupId sg"
  using getSecurityGroupOf_stable [OF assms(1,2), of rt lid env] assms(3,4) by simp

text \<open>
  Claim C10. Whatever the inbound rules were, when the three security groups are three
  different groups and \<open>resetSecurityGroups\<close> returns without an error, each group has
  exactly its one baseline rule: the ALB group TCP 80 from 0.0.0.0/0, the EC2 group TCP
  8080 from the ALB group, the RDS group TCP 5432 from the EC2 group.
\<close>

theorem reset_security_groups_baseline:
  assumes "getAlbSecurityGroup env c = Inr albSg"
    and "getEc2SecurityGroup env c = Inr ec2Sg"
    and "getRdsSecurityGroup env c = Inr rdsSg"
    and "distinct [GroupId albSg, GroupId ec2Sg, GroupId rdsSg]"
    and "resetSecurityGroups env c = (Inr (), c')"
  shows "securityGroups c' (GroupId albSg) = Some [albBaseline]
    \<and> securityGroups c' (GroupId ec2Sg) = Some [ec2Baseline (GroupId albSg)]
    \<and> securityGroups c' (GroupId rdsSg) = Some [rdsBaseline (GroupId ec2Sg)]"
proof -
  from assms(5) assms(1) obtain c1 e1 c2 r1 where
    s1: "resetAlbSecurityGroup env albSg c = (Inr (), c1)" and
    g2: "getEc2SecurityGroup env c1 = Inr e1" and
    s2: "resetEc2SecurityGroup env e1 albSg c1 = (Inr (), c2)" and
    g3: "getRdsSecurityGroup env c2 = Inr r1" and
    s3: "resetRdsSecurityGroup env r1 e1 c2 = (Inr (), c')"
    by (auto simp: resetSecurityGroups_def split: sum.splits prod.splits)
  have a: "securityGroups c (GroupId albSg) = Some (IpPermissions albSg)"
    using assms(1) unfolding getAlbSecurityGroup_def by (rule getSecurityGroupOf_rules)
  have c1: "securityGroups c1 = (securityGroups c)(GroupId albSg \<mapsto> [albBaseline])"
    "tables c1 = tables c"
    using reset_group_rules [OF s1 [unfolded resetAlbSecurityGroup_def] a] by simp_all
  have d1: "dom (securityGroups c1) = dom (securityGroups c)"
    using c1(1) a by auto
  have i1: "GroupId e1 = GroupId ec2Sg"
    using getSecurityGroupOf_same_id [OF c1(2) d1] assms(2) g2
    unfolding getEc2SecurityGroup_def by blast
  have b: "securityGroups c1 (GroupId e1) = Some (IpPermissions e1)"
    using g2 unfolding getEc2SecurityGroup_def by (rule getSecurityGroupOf_rules)
  have c2: "securityGroups c2 = (securityGroups c1)(GroupId e1 \<mapsto> [ec2Baseline (GroupId albSg)])"
    "tables c2 = tables c1"
    using reset_group_rules [OF s2 [unfolded resetEc2SecurityGroup_def] b] by simp_all
  have d2: "dom (securityGroups c2) = dom (securityGroups c)"
    using c2(1) b d1 by auto
  have t2: "tables c2 = tables c" using c1(2) c2(2) by simp
  have i2: "GroupId r1 = GroupId rdsSg"
    using getSecurityGroupOf_same_id [OF t2 d2] assms(3) g3
    unfolding getRdsSecurityGroup_def by blast
  have r: "securityGroups c2 (GroupId r1) = Some (IpPermissions r1)"
    using g3 unfolding getRdsSecurityGroup_def by (rule getSecurityGroupOf_rules)
  have c3: "securityGroups c' = (securityGroups c2)(GroupId r1 \<mapsto> [rdsBaseline (GroupId e1)])"
    using reset_group_rules [OF s3 [unfolded resetRdsSecurityGroup_def] r] by simp
  show ?thesis using c1(1) c2(1) c3 i1 i2 assms(4) by simp
qed

text \<open>
  Claim C4, amended. Every reset leaves every ledger entry as it was: the handler writes
  neither scenario table, whether its restore steps succeeded or not.
\<close>

theorem reset_leaves_ledger:
  "ledger (snd (reset_handler env c)) = ledger c"
  by (rule reset_handler_ledger)

lemma reset_handler_resetting:
  "reset_getGameState (tables c) = ''Resetting'' \<Longrightarrow>
   reset_handler env c =
     (respond 409 ''Reset operation is currently in progress. Please wait 5-15 minutes for completion.'',
      stopRunningStepFunctions env c)"
  by (simp add: reset_handler_def Let_def)

lemma first_reset_status: "statusCode (fst (reset_handler ok_env faulted_cloud)) = 202"
  by (simp add: reset_defs)

lemma first_reset_executions:
  "executions (snd (reset_handler ok_env faulted_cloud))
     = [(''exec-1'', ABORTED), (''reset-observation-1'', RUNNING)]"
  by (simp add: reset_defs)

lemma first_reset_state:
  "reset_getGameState (tables (snd (reset_handler ok_env faulted_cloud))) = ''Resetting''"
  by (simp add: reset_defs)

lemma ok_env_simps:
  "fails ok_env call = False" "OBSERVATION_STATE_MACHINE_ARN ok_env = ''arn:observation''"
  by (simp_all add: ok_env_def)

text \<open>
  Claim C4 as stated fails: a reset whose steps all succeed answers 202 and leaves the two
  \<open>Red\<close> entries of the security table \<open>Red\<close>.
\<close>

theorem reset_ledger_counterexample:
  "statusCode (fst (reset_handler ok_env faulted_cloud)) = 202
   \<and> currentState SecurityScenarioTable ''ALB SG'' (tables (snd (reset_handler ok_env faulted_cloud)))
       = Some ''Red''
   \<and> currentState SecurityScenarioTable ''S3'' (tables (snd (reset_handler ok_env faulted_cloud)))
       = Some ''Red''"
proof -
  have "ledger (snd (reset_handler ok_env faulted_cloud)) = ledger faulted_cloud"
    by (rule reset_handler_ledger)
  then have "securityTable (tables (snd (reset_handler ok_env faulted_cloud)))
      = [(''ALB SG'', ''Red''), (''S3'', ''Red'')]"
    by (simp add: ledger_def faulted_cloud_def reset_db_def)
  then show ?thesis
    using first_reset_status by (simp add: currentState_def scenarioItems_def)
qed

theorem reset_while_resetting_witness:
  "reset_getGameState (tables resetting_cloud) = ''Resetting''
   \<and> statusCode (fst (reset_handler ok_env resetting_cloud)) = 409
   \<and> map fst (executions (snd (reset_handler ok_env resetting_cloud)))
       = [''exec-1'', ''reset-observation-1'']
   \<and> RUNNING \<notin> set (map snd (executions (snd (reset_handler ok_env resetting_cloud))))"
proof -
  have a: "reset_getGameState (tables resetting_cloud) = ''Resetting''"
    by (simp add: reset_defs)
  have b: "truthy (OBSERVATION_STATE_MACHINE_ARN ok_env) \<and> \<not> fails ok_env ListExecutions
         \<and> (\<forall>a. \<not> fails ok_env (StopExecution a))
         \<and> (\<forall>(a, s) \<in> set (executions resetting_cloud). truthy a)
         \<and> length (filter (\<lambda>(a, s). s = RUNNING) (executions resetting_cloud)) \<le> 100"
    by (simp add: ok_env_def truthy_def resetting_cloud_def faulted_cloud_def)
  have c: "map fst (executions resetting_cloud) = [''exec-1'', ''reset-observation-1'']"
    by (simp add: resetting_cloud_def faulted_cloud_def)
  have "\<forall>(a, s) \<in> set (executions (snd (reset_handler ok_env resetting_cloud))). s \<noteq> RUNNING"
    using reset_while_resetting [OF a, of ok_env] b by blast
  then have d: "RUNNING \<notin> set (map snd (executions (snd (reset_handler ok_env resetting_cloud))))"
    by force
  show ?thesis
    using reset_while_resetting [OF a, of ok_env] a c d by simp
qed

theorem reset_security_groups_baseline_witness:
  "getAlbSecurityGroup ok_env faulted_cloud
     = Inr \<lparr>GroupId = ''sg-alb'', IpPermissions = [albBaseline, sshOpen]\<rparr>
   \<and> getEc2SecurityGroup ok_env faulted_cloud
     = Inr \<lparr>GroupId = ''sg-ec2'', IpPermissions = [ec2Baseline ''sg-alb'']\<rparr>
   \<and> getRdsSecurityGroup ok_env faulted_cloud = Inr \<lparr>GroupId = ''sg-rds'', IpPermissions = []\<rparr>
   \<and> distinct [''sg-alb'', ''sg-ec2'', ''sg-rds'']
   \<and> fst (resetSecurityGroups ok_env faulted_cloud) = Inr ()
   \<and> securityGroups (snd (resetSecurityGroups ok_env faulted_cloud)) ''sg-alb'' = Some [albBaseline]
   \<and> securityGroups (snd (resetSecurityGroups ok_env faulted_cloud)) ''sg-ec2''
       = Some [ec2Baseline ''sg-alb'']
   \<and> securityGroups (snd (resetSecurityGroups ok_env faulted_cloud)) ''sg-rds''
       = Some [rdsBaseline ''sg-ec2'']"
proof -
  let ?a = "\<lparr>GroupId = ''sg-alb'', IpPermissions = [albBaseline, sshOpen]\<rparr>"
  let ?e = "\<lparr>GroupId = ''sg-ec2'', IpPermissions = [ec2Baseline ''sg-alb'']\<rparr>"
  let ?r = "\<lparr>GroupId = ''sg-rds'', IpPermissions = []\<rparr>"
  have a: "getAlbSecurityGroup ok_env faulted_cloud = Inr ?a"
    by (simp add: reset_defs)
  have e: "getEc2SecurityGroup ok_env faulted_cloud = Inr ?e"
    by (simp add: reset_defs)
  have r: "getRdsSecurityGroup ok_env faulted_cloud = Inr ?r"
    by (simp add: reset_defs)
  have d: "distinct [GroupId ?a, GroupId ?e, GroupId ?r]"
    by simp
  have f: "fst (resetSecurityGroups ok_env faulted_cloud) = Inr ()"
    by (simp add: reset_defs)
  then have s: "resetSecurityGroups ok_env faulted_cloud
      = (Inr (), snd (resetSecurityGroups ok_env faulted_cloud))"
    by (simp add: prod_eq_iff)
  show ?thesis
    using reset_security_groups_baseline [OF a e r d s] a e r f by simp
qed

theorem reset_leaves_ledger_witness:
  "ledger (snd (reset_handler sgfail_env faulted_cloud))
     = ([(''ALB SG'', ''Red''), (''S3'', ''Red'')], [(''EC2'', ''Green'')])"
  using reset_leaves_ledger [of sgfail_env faulted_cloud]
  by (simp add: ledger_def faulted_cloud_def reset_db_def)

lemma settle_rejects:
  "(t, Rejected e) \<in> set events \<Longrightarrow> \<exists>e'. fst (settle events calls) = Inl e'"
proof (induction events calls rule: settle.induct)
  case (1 calls)
  then show ?case by simp
next
  case (2 t' call events calls)
  then show ?case by auto
next
  case (3 t' e' events calls)
  then show ?case by simp
next
  case (4 t' events calls)
  then show ?case by auto
qed

lemma promiseAll_rejects:
  "tline \<in> set timelines \<Longrightarrow> (t, Rejected e) \<in> set tline \<Longrightarrow> \<exists>e'. fst (promiseAll timelines) = Inl e'"
  unfolding promiseAll_def by (rule settle_rejects [of t e]) auto

lemma restartAll_tables [simp]: "tables (snd (restartAll env is c)) = tables c"
  by (simp add: restartAll_def split: prod.splits)

lemma restart_rethrows:
  assumes "i \<in> set (instancesToRestart env x)"
    and "(t, Rejected e) \<in> set (startEC2InstanceRestart env i)"
  shows "(\<exists>err. fst (forceRestartEC2InstancesWithStateChange env x) = Inl err)
    \<and> tables (snd (forceRestartEC2InstancesWithStateChange env x)) = tables x"
proof -
  let ?is = "instancesToRestart env x"
  have ne: "?is \<noteq> []" using assms(1) by auto
  obtain e' where p: "fst (promiseAll (map (startEC2InstanceRestart env) ?is)) = Inl e'"
    using promiseAll_rejects [of "startEC2InstanceRestart env i"
        "map (startEC2InstanceRestart env) ?is" t e] assms by auto
  then have r: "fst (restartAll env ?is x) = Inl e'"
    by (cases "promiseAll (map (startEC2InstanceRestart env) ?is)") (simp add: restartAll_def)
  obtain c' where rc: "restartAll env ?is x = (Inl e', c')"
    using r by (cases "restartAll env ?is x") simp
  have "tables c' = tables x" using restartAll_tables [of env ?is x] rc by simp
  then show ?thesis
    using ne rc by (simp add: forceRestartEC2InstancesWithStateChange_def Let_def andThen_def)
qed

lemma startInstance_rejects:
  "fails env (StartInstances i) \<Longrightarrow> \<exists>err. (t, Rejected err) \<in> set (startInstance env i t)"
  by (simp add: startInstance_def)

lemma forceRestartInstance_rejects:
  assumes "fails env (StopInstances i) \<or> fails env (StartInstances i)"
  shows "\<exists>t err. (t, Rejected err) \<in> set (forceRestartInstance env i t0)"
proof (cases "fails env (StopInstances i)")
  case True
  then show ?thesis by (auto simp: forceRestartInstance_def)
next
  case False
  then have s: "fails env (StartInstances i)" using assms by simp
  obtain r t where w: "waitForInstanceStopped env i t0 0 = (r, t)"
    by (cases "waitForInstanceStopped env i t0 0")
  show ?thesis
  proof (cases r)
    case (Inl e)
    then show ?thesis using False w by (auto simp: forceRestartInstance_def)
  next
    case (Inr u)
    then show ?thesis
      using False w startInstance_rejects [OF s, of t]
      by (auto simp: forceRestartInstance_def)
  qed
qed

lemma restart_call_rejects:
  assumes "fails env (DescribeInstances i)
      \<or> (fails env (StopInstances i) \<and> instanceStateAt env i 0 \<in> {Some ''running'', Some ''pending''})
      \<or> (fails env (StartInstances i) \<and> instanceStateAt env i 0
            \<in> {Some ''running'', Some ''stopped'', Some ''stopping'', Some ''pending''})"
  shows "\<exists>t err. (t, Rejected err) \<in> set (startEC2InstanceRestart env i)"
proof (cases "fails env (DescribeInstances i)")
  case True
  then show ?thesis by (auto simp: startEC2InstanceRestart_def)
next
  case False
  obtain r1 t1 where w1: "waitForInstanceStopped env i 0 0 = (r1, t1)"
    by (cases "waitForInstanceStopped env i 0 0")
  obtain r2 t2 where w2: "waitForInstanceRunning env i 0 0 = (r2, t2)"
    by (cases "waitForInstanceRunning env i 0 0")
  from False assms consider
      (running) "instanceStateAt env i 0 = Some ''running''"
        "fails env (StopInstances i) \<or> fails env (StartInstances i)"
    | (pending) "instanceStateAt env i 0 = Some ''pending''"
        "fails env (StopInstances i) \<or> fails env (StartInstances i)"
    | (stopped) "instanceStateAt env i 0 = Some ''stopped''" "fails env (StartInstances i)"
    | (stopping) "instanceStateAt env i 0 = Some ''stopping''" "fails env (StartInstances i)"
    by auto
  then show ?thesis
  proof cases
    case running
    then show ?thesis
      using False forceRestartInstance_rejects [OF running(2), of 0]
      by (simp add: startEC2InstanceRestart_def)
  next
    case pending
    show ?thesis
    proof (cases r2)
      case (Inl e)
      then show ?thesis using False pending(1) w2 by (auto simp: startEC2InstanceRestart_def)
    next
      case (Inr u)
      then show ?thesis
        using False pending(1) w2 forceRestartInstance_rejects [OF pending(2), of t2]
        by (simp add: startEC2InstanceRestart_def)
    qed
  next
    case stopped
    then show ?thesis
      using False startInstance_rejects [OF stopped(2), of 0]
      by (auto simp: startEC2InstanceRestart_def)
  next
    case stopping
    show ?thesis
    proof (cases r1)
      case (Inl e)
      then show ?thesis using False stopping(1) w1 by (auto simp: startEC2InstanceRestart_def)
    next
      case (Inr u)
      then show ?thesis
        using False stopping(1) w1 startInstance_rejects [OF stopping(2), of t1]
        by (auto simp: startEC2InstanceRestart_def)
    qed
  qed
qed

lemma s3_rethrows:
  assumes "resourceIdOf (tables x) ''S3_BUCKET'' = Some b"
    and "fails env GetPublicAccessBlock \<or> fails env PutPublicAccessBlock"
  shows "\<exists>err. enableS3PublicAccessBlock env x = (Inl err, x)"
  using assms by (auto simp: enableS3PublicAccessBlock_def enablePublicAccessBlock_def)

lemma trail_rethrows:
  assumes "resourceIdOf (tables x) ''CLOUDTRAIL'' = Some n"
    and "n \<noteq> ''IsengardTrail-DO-NOT-DELETE''"
    and "fails env DescribeTrails \<or> fails env GetTrailStatus \<or> fails env UpdateTrail
       \<or> (fails env StartLogging \<and> \<not> (\<exists>tr. trails x n = Some tr \<and> IsLogging tr))"
  shows "\<exists>err. fst (enableCloudTrail env x) = Inl err"
  using assms
  by (auto simp: enableCloudTrail_def enableTrailLogging_def startLoggingIfOff_def
      updateTrail_def andThen_def split: option.splits)

lemma iam_swallows: "fst (resetIAMRole env x) = Inr ()"
  by (simp add: resetIAMRole_def split: option.splits)

lemma start_swallows: "fst (startObservationStateMachine env x) = Inr ()"
  by (simp add: startObservationStateMachine_def)

lemma reset_group_ok:
  assumes "andThen (revokeExisting env sg) (authorizeSecurityGroupIngress env g base) c = (Inr (), c1)"
  shows "\<not> fails env (AuthorizeSecurityGroupIngress g)
    \<and> (IpPermissions sg \<noteq> [] \<longrightarrow> \<not> fails env (RevokeSecurityGroupIngress (GroupId sg)))"
  using assms
  by (auto simp: andThen_def revokeExisting_def succeed_def revokeSecurityGroupIngress_def
      authorizeSecurityGroupIngress_def split: if_splits option.splits prod.splits sum.splits)

lemma resetSecurityGroups_unfold:
  assumes "resetSecurityGroups env x = (Inr (), c')"
  obtains albSg c1 e1 c2 r1 where
    "getAlbSecurityGroup env x = Inr albSg"
    "resetAlbSecurityGroup env albSg x = (Inr (), c1)"
    "getEc2SecurityGroup env c1 = Inr e1"
    "resetEc2SecurityGroup env e1 albSg c1 = (Inr (), c2)"
    "getRdsSecurityGroup env c2 = Inr r1"
    "resetRdsSecurityGroup env r1 e1 c2 = (Inr (), c')"
    "tables c1 = tables x" "dom (securityGroups c1) = dom (securityGroups x)"
    "tables c2 = tables x" "dom (securityGroups c2) = dom (securityGroups x)"
proof -
  from assms obtain albSg c1 e1 c2 r1 where
    g1: "getAlbSecurityGroup env x = Inr albSg" and
    s1: "resetAlbSecurityGroup env albSg x = (Inr (), c1)" and
    g2: "getEc2SecurityGroup env c1 = Inr e1" and
    s2: "resetEc2SecurityGroup env e1 albSg c1 = (Inr (), c2)" and
    g3: "getRdsSecurityGroup env c2 = Inr r1" and
    s3: "resetRdsSecurityGroup env r1 e1 c2 = (Inr (), c')"
    by (auto simp: resetSecurityGroups_def split: sum.splits prod.splits)
  have a: "securityGroups x (GroupId albSg) = Some (IpPermissions albSg)"
    using g1 unfolding getAlbSecurityGroup_def by (rule getSecurityGroupOf_rules)
  have c1: "securityGroups c1 = (securityGroups x)(GroupId albSg \<mapsto> [albBaseline])"
    "tables c1 = tables x"
    using reset_group_rules [OF s1 [unfolded resetAlbSecurityGroup_def] a] by simp_all
  have d1: "dom (securityGroups c1) = dom (securityGroups x)"
    using c1(1) a by auto
  have b: "securityGroups c1 (GroupId e1) = Some (IpPermissions e1)"
    using g2 unfolding getEc2SecurityGroup_def by (rule getSecurityGroupOf_rules)
  have c2: "securityGroups c2 = (securityGroups c1)(GroupId e1 \<mapsto> [ec2Baseline (GroupId albSg)])"
    "tables c2 = tables c1"
    using reset_group_rules [OF s2 [unfolded resetEc2SecurityGroup_def] b] by simp_all
  have d2: "dom (securityGroups c2) = dom (securityGroups x)"
    using c2(1) b d1 by auto
  show ?thesis
    using that [OF g1 s1 g2 s2 g3 s3 c1(2) d1 _ d2] c1(2) c2(2) by simp
qed

lemma sg_get_rethrows:
  assumes "getAlbSecurityGroup env x = Inl err \<or> getEc2SecurityGroup env x = Inl err
      \<or> getRdsSecurityGroup env x = Inl err"
  shows "\<exists>err'. fst (resetSecurityGroups env x) = Inl err'"
proof (cases "fst (resetSecurityGroups env x)")
  case (Inl e)
  then show ?thesis by blast
next
  case (Inr u)
  then have "resetSecurityGroups env x = (Inr (), snd (resetSecurityGroups env x))"
    by (simp add: prod_eq_iff)
  then obtain albSg c1 e1 c2 r1 where
    g1: "getAlbSecurityGroup env x = Inr albSg" and
    g2: "getEc2SecurityGroup env c1 = Inr e1" and
    g3: "getRdsSecurityGroup env c2 = Inr r1" and
    t1: "tables c1 = tables x" and d1: "dom (securityGroups c1) = dom (securityGroups x)" and
    t2: "tables c2 = tables x" and d2: "dom (securityGroups c2) = dom (securityGroups x)"
    by (rule resetSecurityGroups_unfold)
  have "getEc2SecurityGroup env x \<noteq> Inl err"
    using getSecurityGroupOf_stable [OF t1 d1, of "''EC2_SG''" _ env] g2
    unfolding getEc2SecurityGroup_def by (metis map_sum.simps(1,2) sum.distinct(1))
  moreover have "getRdsSecurityGroup env x \<noteq> Inl err"
    using getSecurityGroupOf_stable [OF t2 d2, of "''RDS_SG''" _ env] g3
    unfolding getRdsSecurityGroup_def by (metis map_sum.simps(1,2) sum.distinct(1))
  ultimately show ?thesis using assms g1 by simp
qed

lemma sg_call_rethrows:
  assumes "((getAlbSecurityGroup env x = Inr g \<or> getEc2SecurityGroup env x = Inr g
           \<or> getRdsSecurityGroup env x = Inr g)
          \<and> fails env (AuthorizeSecurityGroupIngress (GroupId g)))
      \<or> (getAlbSecurityGroup env x = Inr g \<and> IpPermissions g \<noteq> []
          \<and> fails env (RevokeSecurityGroupIngress (GroupId g)))"
  shows "\<exists>err'. fst (resetSecurityGroups env x) = Inl err'"
proof (cases "fst (resetSecurityGroups env x)")
  case (Inl e)
  then show ?thesis by blast
next
  case (Inr u)
  then have "resetSecurityGroups env x = (Inr (), snd (resetSecurityGroups env x))"
    by (simp add: prod_eq_iff)
  then obtain albSg c1 e1 c2 r1 where
    g1: "getAlbSecurityGroup env x = Inr albSg" and
    s1: "resetAlbSecurityGroup env albSg x = (Inr (), c1)" and
    g2: "getEc2SecurityGroup env c1 = Inr e1" and
    s2: "resetEc2SecurityGroup env e1 albSg c1 = (Inr (), c2)" and
    g3: "getRdsSecurityGroup env c2 = Inr r1" and
    s3: "resetRdsSecurityGroup env r1 e1 c2 = (Inr (), snd (resetSecurityGroups env x))" and
    t1: "tables c1 = tables x" and d1: "dom (securityGroups c1) = dom (securityGroups x)" and
    t2: "tables c2 = tables x" and d2: "dom (securityGroups c2) = dom (securityGroups x)"
    by (rule resetSecurityGroups_unfold)
  have o1: "\<not> fails env (AuthorizeSecurityGroupIngress (GroupId albSg))"
    "IpPermissions albSg \<noteq> [] \<longrightarrow> \<not> fails env (RevokeSecurityGroupIngress (GroupId albSg))"
    using reset_group_ok [OF s1 [unfolded resetAlbSecurityGroup_def]] by simp_all
  have o2: "\<not> fails env (AuthorizeSecurityGroupIngress (GroupId e1))"
    using reset_group_ok [OF s2 [unfolded resetEc2SecurityGroup_def]] by simp
  have o3: "\<not> fails env (AuthorizeSecurityGroupIngress (GroupId r1))"
    using reset_group_ok [OF s3 [unfolded resetRdsSecurityGroup_def]] by simp
  have i2: "getEc2SecurityGroup env x = Inr g \<Longrightarrow> GroupId e1 = GroupId g"
    using getSecurityGroupOf_same_id [OF t1 d1 _ g2 [unfolded getEc2SecurityGroup_def]]
    unfolding getEc2SecurityGroup_def by blast
  have i3: "getRdsSecurityGroup env x = Inr g \<Longrightarrow> GroupId r1 = GroupId g"
    using getSecurityGroupOf_same_id [OF t2 d2 _ g3 [unfolded getRdsSecurityGroup_def]]
    unfolding getRdsSecurityGroup_def by blast
  show ?thesis using assms g1 o1 o2 o3 i2 i3 by auto
qed

lemma reset_handler_steps:
  assumes "reset_getGameState (tables c) \<noteq> ''Resetting''"
  shows "runSteps (resetSteps env) (stopRunningStepFunctions env c) = (Inl e, c')
           \<Longrightarrow> statusCode (fst (reset_handler env c)) = 500 \<and> snd (reset_handler env c) = c'"
    and "runSteps (resetSteps env) (stopRunningStepFunctions env c) = (Inr (), c')
           \<Longrightarrow> statusCode (fst (reset_handler env c)) = 202 \<and> snd (reset_handler env c) = c'"
  using assms by (simp_all add: reset_handler_def Let_def respond_def)

lemma reset_chain_sg:
  assumes "reset_getGameState (tables c) \<noteq> ''Resetting''"
    and "resetSecurityGroups env (stopRunningStepFunctions env c) = (Inl e, c')"
  shows "statusCode (fst (reset_handler env c)) = 500 \<and> snd (reset_handler env c) = c'"
proof -
  have "runSteps (resetSteps env) (stopRunningStepFunctions env c) = (Inl e, c')"
    using assms(2) by (simp add: resetSteps_def andThen_def)
  then show ?thesis by (rule reset_handler_steps(1) [OF assms(1)])
qed

lemma reset_chain_s3:
  assumes "reset_getGameState (tables c) \<noteq> ''Resetting''"
    and "resetSecurityGroups env (stopRunningStepFunctions env c) = (Inr (), c1)"
    and "enableS3PublicAccessBlock env c1 = (Inl e, c')"
  shows "statusCode (fst (reset_handler env c)) = 500 \<and> snd (reset_handler env c) = c'"
proof -
  have "runSteps (resetSteps env) (stopRunningStepFunctions env c) = (Inl e, c')"
    using assms(2,3) by (simp add: resetSteps_def andThen_def)
  then show ?thesis by (rule reset_handler_steps(1) [OF assms(1)])
qed

lemma reset_chain_trail:
  assumes "reset_getGameState (tables c) \<noteq> ''Resetting''"
    and "resetSecurityGroups env (stopRunningStepFunctions env c) = (Inr (), c1)"
    and "enableS3PublicAccessBlock env c1 = (Inr (), c2)"
    and "enableCloudTrail env c2 = (Inl e, c')"
  shows "statusCode (fst (reset_handler env c)) = 500 \<and> snd (reset_handler env c) = c'"
proof -
  have "runSteps (resetSteps env) (stopRunningStepFunctions env c) = (Inl e, c')"
    using assms(2,3,4) by (simp add: resetSteps_def andThen_def)
  then show ?thesis by (rule reset_handler_steps(1) [OF assms(1)])
qed

lemma reset_chain_restart:
  assumes "reset_getGameState (tables c) \<noteq> ''Resetting''"
    and "resetSecurityGroups env (stopRunningStepFunctions env c) = (Inr (), c1)"
    and "enableS3PublicAccessBlock env c1 = (Inr (), c2)"
    and "enableCloudTrail env c2 = (Inr (), c3)"
    and "forceRestartEC2InstancesWithStateChange env (snd (resetIAMRole env c3)) = (Inl e, c')"
  shows "statusCode (fst (reset_handler env c)) = 500 \<and> snd (reset_handler env c) = c'"
proof -
  obtain c4 where i: "resetIAMRole env c3 = (Inr (), c4)"
    using iam_swallows [of env c3] by (cases "resetIAMRole env c3") simp
  have f: "forceRestartEC2InstancesWithStateChange env c4 = (Inl e, c')"
    using assms(5) i by simp
  have "runSteps (resetSteps env) (stopRunningStepFunctions env c) = (Inl e, c')"
    using assms(2,3,4) i f by (simp add: resetSteps_def andThen_def)
  then show ?thesis by (rule reset_handler_steps(1) [OF assms(1)])
qed

lemma reset_chain_ok:
  assumes "reset_getGameState (tables c) \<noteq> ''Resetting''"
    and "resetSecurityGroups env (stopRunningStepFunctions env c) = (Inr (), c1)"
    and "enableS3PublicAccessBlock env c1 = (Inr (), c2)"
    and "enableCloudTrail env c2 = (Inr (), c3)"
    and "forceRestartEC2InstancesWithStateChange env (snd (resetIAMRole env c3)) = (Inr (), c5)"
  shows "statusCode (fst (reset_handler env c)) = 202
    \<and> snd (reset_handler env c) = snd (startObservationStateMachine env c5)"
proof -
  obtain c4 where i: "resetIAMRole env c3 = (Inr (), c4)"
    using iam_swallows [of env c3] by (cases "resetIAMRole env c3") simp
  have f: "forceRestartEC2InstancesWithStateChange env c4 = (Inr (), c5)"
    using assms(5) i by simp
  obtain c6 where o: "startObservationStateMachine env c5 = (Inr (), c6)"
    using start_swallows [of env c5] by (cases "startObservationStateMachine env c5") simp
  have "runSteps (resetSteps env) (stopRunningStepFunctions env c) = (Inr (), c6)"
    using assms(2,3,4) i f o by (simp add: resetSteps_def andThen_def)
  then have "statusCode (fst (reset_handler env c)) = 202 \<and> snd (reset_handler env c) = c6"
    by (rule reset_handler_steps(2) [OF assms(1)])
  then show ?thesis using o by simp
qed

text \<open>
  Claim C3, amended. For a reset that finds the game state other than \<open>Resetting\<close>:
  an error in the security group, S3, CloudTrail or restart step is rethrown. The handler
  then answers 500 and leaves the state the failing step left, so that no later step is
  attempted; it answers 202, with the state the start of the observation run leaves, when
  these four steps return. The steps do throw when their calls fail: the security group
  step when one of the three groups cannot be found, when the authorize call on one of
  them fails, or the revoke call on an ALB group that has rules; the S3 step, leaving the
  state as it was, when reading or writing the public access block of the mapped bucket
  fails; the CloudTrail step, for a mapped trail other than the protected one, when
  describing the trails, reading the status or updating the trail fails, or starting the
  logging of a trail that is not logging; a restart is rejected when its describe call
  fails, or the stop or start call that the state of the instance leads to; and the
  restart step throws, without setting \<open>Resetting\<close>, when a restart is rejected. The IAM
  role rebinding and the start of the observation run never throw, whatever fails inside
  them.
\<close>

theorem reset_step_error_aborts:
  assumes "reset_getGameState (tables c) \<noteq> ''Resetting''"
  shows "(resetSecurityGroups env (stopRunningStepFunctions env c) = (Inl e, c')
          \<longrightarrow> statusCode (fst (reset_handler env c)) = 500 \<and> snd (reset_handler env c) = c')
    \<and> (resetSecurityGroups env (stopRunningStepFunctions env c) = (Inr (), ca)
        \<and> enableS3PublicAccessBlock env ca = (Inl e, c')
          \<longrightarrow> statusCode (fst (reset_handler env c)) = 500 \<and> snd (reset_handler env c) = c')
    \<and> (resetSecurityGroups env (stopRunningStepFunctions env c) = (Inr (), ca)
        \<and> enableS3PublicAccessBlock env ca = (Inr (), cb)
        \<and> enableCloudTrail env cb = (Inl e, c')
          \<longrightarrow> statusCode (fst (reset_handler env c)) = 500 \<and> snd (reset_handler env c) = c')
    \<and> (resetSecurityGroups env (stopRunningStepFunctions env c) = (Inr (), ca)
        \<and> enableS3PublicAccessBlock env ca = (Inr (), cb)
        \<and> enableCloudTrail env cb = (Inr (), cc)
        \<and> forceRestartEC2InstancesWithStateChange env (snd (resetIAMRole env cc)) = (Inl e, c')
          \<longrightarrow> statusCode (fst (reset_handler env c)) = 500 \<and> snd (reset_handler env c) = c')
    \<and> (resetSecurityGroups env (stopRunningStepFunctions env c) = (Inr (), ca)
        \<and> enableS3PublicAccessBlock env ca = (Inr (), cb)
        \<and> enableCloudTrail env cb = (Inr (), cc)
        \<and> forceRestartEC2InstancesWithStateChange env (snd (resetIAMRole env cc)) = (Inr (), ce)
          \<longrightarrow> statusCode (fst (reset_handler env c)) = 202
            \<and> snd (reset_handler env c) = snd (startObservationStateMachine env ce))
    \<and> (getAlbSecurityGroup env x = Inl err \<or> getEc2SecurityGroup env x = Inl err
        \<or> getRdsSecurityGroup env x = Inl err
          \<longrightarrow> (\<exists>err'. fst (resetSecurityGroups env x) = Inl err'))
    \<and> (((getAlbSecurityGroup env x = Inr g \<or> getEc2SecurityGroup env x = Inr g
           \<or> getRdsSecurityGroup env x = Inr g)
          \<and> fails env (AuthorizeSecurityGroupIngress (GroupId g)))
        \<or> (getAlbSecurityGroup env x = Inr g \<and> IpPermissions g \<noteq> []
          \<and> fails env (RevokeSecurityGroupIngress (GroupId g)))
          \<longrightarrow> (\<exists>err'. fst (resetSecurityGroups env x) = Inl err'))
    \<and> (resourceIdOf (tables x) ''S3_BUCKET'' = Some b
        \<and> (fails env GetPublicAccessBlock \<or> fails env PutPublicAccessBlock)
          \<longrightarrow> (\<exists>err'. enableS3PublicAccessBlock env x = (Inl err', x)))
    \<and> (resourceIdOf (tables x) ''CLOUDTRAIL'' = Some n \<and> n \<noteq> ''IsengardTrail-DO-NOT-DELETE''
        \<and> (fails env DescribeTrails \<or> fails env GetTrailStatus \<or> fails env UpdateTrail
            \<or> (fails env StartLogging \<and> \<not> (\<exists>tr. trails x n = Some tr \<and> IsLogging tr)))
          \<longrightarrow> (\<exists>err'. fst (enableCloudTrail env x) = Inl err'))
    \<and> (fails env (DescribeInstances i)
        \<or> (fails env (StopInstances i)
            \<and> instanceStateAt env i 0 \<in> {Some ''running'', Some ''pending''})
        \<or> (fails env (StartInstances i)
            \<and> instanceStateAt env i 0
                \<in> {Some ''running'', Some ''stopped'', Some ''stopping'', Some ''pending''})
          \<longrightarrow> (\<exists>t err'. (t, Rejected err') \<in> set (startEC2InstanceRestart env i)))
    \<and> (i \<in> set (instancesToRestart env x)
        \<and> (t, Rejected err) \<in> set (startEC2InstanceRestart env i)
          \<longrightarrow> (\<exists>err'. fst (forceRestartEC2InstancesWithStateChange env x) = Inl err')
            \<and> tables (snd (forceRestartEC2InstancesWithStateChange env x)) = tables x)
    \<and> fst (resetIAMRole env x) = Inr ()
    \<and> fst (startObservationStateMachine env x) = Inr ()"
proof -
  have p1: "resetSecurityGroups env (stopRunningStepFunctions env c) = (Inl e, c')
          \<longrightarrow> statusCode (fst (reset_handler env c)) = 500 \<and> snd (reset_handler env c) = c'"
    using reset_chain_sg [OF assms, of env e c'] by (rule impI)
  have p2: "resetSecurityGroups env (stopRunningStepFunctions env c) = (Inr (), ca)
        \<and> enableS3PublicAccessBlock env ca = (Inl e, c')
          \<longrightarrow> statusCode (fst (reset_handler env c)) = 500 \<and> snd (reset_handler env c) = c'"
    using reset_chain_s3 [OF assms, of env ca e c'] by (intro impI; elim conjE)
  have p3: "resetSecurityGroups env (stopRunningStepFunctions env c) = (Inr (), ca)
        \<and> enableS3PublicAccessBlock env ca = (Inr (), cb)
        \<and> enableCloudTrail env cb = (Inl e, c')
          \<longrightarrow> statusCode (fst (reset_handler env c)) = 500 \<and> snd (reset_handler env c) = c'"
    using reset_chain_trail [OF assms, of env ca cb e c'] by (intro impI; elim conjE)
  have p4: "resetSecurityGroups env (stopRunningStepFunctions env c) = (Inr (), ca)
        \<and> enableS3PublicAccessBlock env ca = (Inr (), cb)
        \<and> enableCloudTrail env cb = (Inr (), cc)
        \<and> forceRestartEC2InstancesWithStateChange env (snd (resetIAMRole env cc)) = (Inl e, c')
          \<longrightarrow> statusCode (fst (reset_handler env c)) = 500 \<and> snd (reset_handler env c) = c'"
    using reset_chain_restart [OF assms, of env ca cb cc e c'] by (intro impI; elim conjE)
  have p5: "resetSecurityGroups env (stopRunningStepFunctions env c) = (Inr (), ca)
        \<and> enableS3PublicAccessBlock env ca = (Inr (), cb)
        \<and> enableCloudTrail env cb = (Inr (), cc)
        \<and> forceRestartEC2InstancesWithStateChange env (snd (resetIAMRole env cc)) = (Inr (), ce)
          \<longrightarrow> statusCode (fst (reset_handler env c)) = 202
            \<and> snd (reset_handler env c) = snd (startObservationStateMachine env ce)"
    using reset_chain_ok [OF assms, of env ca cb cc ce] by (intro impI; elim conjE)
  have p6: "getAlbSecurityGroup env x = Inl err \<or> getEc2SecurityGroup env x = Inl err
        \<or> getRdsSecurityGroup env x = Inl err
          \<longrightarrow> (\<exists>err'. fst (resetSecurityGroups env x) = Inl err')"
    using sg_get_rethrows [of env x err] by (rule impI)
  have p7: "((getAlbSecurityGroup env x = Inr g \<or> getEc2SecurityGroup env x = Inr g
           \<or> getRdsSecurityGroup env x = Inr g)
          \<and> fails env (AuthorizeSecurityGroupIngress (GroupId g)))
        \<or> (getAlbSecurityGroup env x = Inr g \<and> IpPermissions g \<noteq> []
          \<and> fails env (RevokeSecurityGroupIngress (GroupId g)))
          \<longrightarrow> (\<exists>err'. fst (resetSecurityGroups env x) = Inl err')"
    using sg_call_rethrows [of env x g] by (rule impI)
  have p8: "resourceIdOf (tables x) ''S3_BUCKET'' = Some b
        \<and> (fails env GetPublicAccessBlock \<or> fails env PutPublicAccessBlock)
          \<longrightarrow> (\<exists>err'. enableS3PublicAccessBlock env x = (Inl err', x))"
    using s3_rethrows [of x b env] by (intro impI; elim conjE)
  have p9: "resourceIdOf (tables x) ''CLOUDTRAIL'' = Some n \<and> n \<noteq> ''IsengardTrail-DO-NOT-DELETE''
        \<and> (fails env DescribeTrails \<or> fails env GetTrailStatus \<or> fails env UpdateTrail
            \<or> (fails env StartLogging \<and> \<not> (\<exists>tr. trails x n = Some tr \<and> IsLogging tr)))
          \<longrightarrow> (\<exists>err'. fst (enableCloudTrail env x) = Inl err')"
    using trail_rethrows [of x n env] by (intro impI; elim conjE)
  have p10: "fails env (DescribeInstances i)
        \<or> (fails env (StopInstances i)
            \<and> instanceStateAt env i 0 \<in> {Some ''running'', Some ''pending''})
        \<or> (fails env (StartInstances i)
            \<and> instanceStateAt env i 0
                \<in> {Some ''running'', Some ''stopped'', Some ''stopping'', Some ''pending''})
          \<longrightarrow> (\<exists>t err'. (t, Rejected err') \<in> set (startEC2InstanceRestart env i))"
    using restart_call_rejects [of env i] by (rule impI)
  have p11: "i \<in> set (instancesToRestart env x)
        \<and> (t, Rejected err) \<in> set (startEC2InstanceRestart env i)
          \<longrightarrow> (\<exists>err'. fst (forceRestartEC2InstancesWithStateChange env x) = Inl err')
            \<and> tables (snd (forceRestartEC2InstancesWithStateChange env x)) = tables x"
    using restart_rethrows [of i env x t err] by (intro impI; elim conjE)
  have p12: "fst (resetIAMRole env x) = Inr ()" by (rule iam_swallows)
  have p13: "fst (startObservationStateMachine env x) = Inr ()" by (rule start_swallows)
  show ?thesis
    by (rule conjI [OF p1 conjI [OF p2 conjI [OF p3 conjI [OF p4 conjI [OF p5 conjI [OF p6
        conjI [OF p7 conjI [OF p8 conjI [OF p9 conjI [OF p10 conjI [OF p11
        conjI [OF p12 p13]]]]]]]]]]]])
qed

lemma route_status: "fst (game_reset_route env c) = 202"
  by (simp add: game_reset_route_def)

lemma route_state: "snd (game_reset_route env c) = snd (reset_handler env c)"
  by (simp add: game_reset_route_def)

text \<open>
  Claim C2, amended. A reset is accepted in every phase: the route answers 202 whatever
  the game state is and whatever the handler returns. But a reset that finds the game
  state \<open>Resetting\<close> does not restart the reset: it changes nothing but statuses of
  executions, so it restores no resource, writes no table and adds no execution, and the
  game state is still \<open>Resetting\<close>.
\<close>

theorem reset_accepted_not_restarted:
  "fst (game_reset_route env c) = 202
   \<and> (reset_getGameState (tables c) = ''Resetting'' \<longrightarrow>
        snd (game_reset_route env c)
          = c\<lparr>executions := executions (snd (game_reset_route env c))\<rparr>
      \<and> map fst (executions (snd (game_reset_route env c))) = map fst (executions c)
      \<and> reset_getGameState (tables (snd (game_reset_route env c))) = ''Resetting'')"
proof -
  have "snd (reset_handler env c) = stopRunningStepFunctions env c"
    if "reset_getGameState (tables c) = ''Resetting''"
    using reset_handler_resetting [OF that, of env] by simp
  then show ?thesis
    using stopRunning_frame [of env c]
    by (auto simp: route_status route_state)
qed

text \<open>
  Claim C2 as stated fails: two resets in succession are both answered 202; the first
  starts the confirmation pass, and the second, which finds \<open>Resetting\<close>, does not
  restart anything: after it no execution is running and the game is still \<open>Resetting\<close>.
\<close>

theorem second_reset_counterexample:
  "fst (game_reset_route ok_env faulted_cloud) = 202
   \<and> executions (snd (game_reset_route ok_env faulted_cloud))
       = [(''exec-1'', ABORTED), (''reset-observation-1'', RUNNING)]
   \<and> fst (game_reset_route ok_env (snd (game_reset_route ok_env faulted_cloud))) = 202
   \<and> executions (snd (game_reset_route ok_env (snd (game_reset_route ok_env faulted_cloud))))
       = [(''exec-1'', ABORTED), (''reset-observation-1'', ABORTED)]
   \<and> reset_getGameState
        (tables (snd (game_reset_route ok_env (snd (game_reset_route ok_env faulted_cloud)))))
       = ''Resetting''"
proof -
  let ?c1 = "snd (reset_handler ok_env faulted_cloud)"
  have h: "reset_handler ok_env ?c1 =
     (respond 409 ''Reset operation is currently in progress. Please wait 5-15 minutes for completion.'',
      stopRunningStepFunctions ok_env ?c1)"
    using first_reset_state by (rule reset_handler_resetting)
  have e: "executions (stopRunningStepFunctions ok_env ?c1)
       = [(''exec-1'', ABORTED), (''reset-observation-1'', ABORTED)]"
    by (simp add: stopRunningStepFunctions_def listRunning_def markAborted_def truthy_def
        ok_env_simps first_reset_executions)
  show ?thesis
    using h e first_reset_executions first_reset_state
    by (simp add: route_status route_state)
qed

theorem reset_accepted_not_restarted_witness:
  "reset_getGameState (tables resetting_cloud) = ''Resetting''
   \<and> fst (game_reset_route ok_env resetting_cloud) = 202
   \<and> map fst (executions (snd (game_reset_route ok_env resetting_cloud)))
       = [''exec-1'', ''reset-observation-1'']
   \<and> securityGroups (snd (game_reset_route ok_env resetting_cloud)) ''sg-alb''
       = Some [albBaseline, sshOpen]
   \<and> instanceCalls (snd (game_reset_route ok_env resetting_cloud)) = []"
proof -
  have a: "reset_getGameState (tables resetting_cloud) = ''Resetting''"
    by (simp add: reset_defs)
  have n: "map fst (executions resetting_cloud) = [''exec-1'', ''reset-observation-1'']"
    by (simp add: resetting_cloud_def faulted_cloud_def)
  have f: "snd (game_reset_route ok_env resetting_cloud)
      = resetting_cloud\<lparr>executions := executions (snd (game_reset_route ok_env resetting_cloud))\<rparr>"
    using reset_accepted_not_restarted [of ok_env resetting_cloud] a by blast
  have g: "securityGroups (snd (game_reset_route ok_env resetting_cloud)) ''sg-alb''
      = securityGroups resetting_cloud ''sg-alb''"
    by (subst f) simp
  have i: "instanceCalls (snd (game_reset_route ok_env resetting_cloud))
      = instanceCalls resetting_cloud"
    by (subst f) simp
  show ?thesis
    using reset_accepted_not_restarted [of ok_env resetting_cloud] a n g i
    by (simp add: resetting_cloud_def faulted_cloud_def)
qed

text \<open>
  Claim C3 as stated fails: the authorize call on the ALB group fails after the revoke;
  the reset answers 500, the group is left without a rule, and the bucket, the trail, the
  instances, the game state and the observation run are not touched.
\<close>

theorem reset_step_error_counterexample:
  "statusCode (fst (reset_handler sgfail_env faulted_cloud)) = 500
   \<and> securityGroups (snd (reset_handler sgfail_env faulted_cloud)) ''sg-alb'' = Some []
   \<and> publicAccessBlocks (snd (reset_handler sgfail_env faulted_cloud)) ''bucket''
       = Some \<lparr>BlockPublicAcls = False, BlockPublicPolicy = False,
               IgnorePublicAcls = False, RestrictPublicBuckets = False\<rparr>
   \<and> trails (snd (reset_handler sgfail_env faulted_cloud)) ''trail''
       = Some \<lparr>IsLogging = False, IsMultiRegionTrail = True, IncludeGlobalServiceEvents = True\<rparr>
   \<and> instanceCalls (snd (reset_handler sgfail_env faulted_cloud)) = []
   \<and> executions (snd (reset_handler sgfail_env faulted_cloud)) = [(''exec-1'', ABORTED)]
   \<and> reset_getGameState (tables (snd (reset_handler sgfail_env faulted_cloud))) = ''Ongoing''"
  by (simp add: reset_defs)

lemma s3fail_sg:
  "fst (resetSecurityGroups s3fail_env (stopRunningStepFunctions s3fail_env faulted_cloud)) = Inr ()"
  by (simp add: reset_defs)

lemma s3fail_s3:
  "fst (enableS3PublicAccessBlock s3fail_env
          (snd (resetSecurityGroups s3fail_env (stopRunningStepFunctions s3fail_env faulted_cloud))))
     = Inl (Thrown ''PutPublicAccessBlock'')"
  by (simp add: reset_defs)

lemma restartfail_timeline:
  "startEC2InstanceRestart restartfail_env ''i-1''
     = [(0, Call (StopInstances ''i-1'')), (10, Rejected (Thrown ''StartInstances''))]"
  by (simp add: reset_defs)

lemma restartfail_instances:
  "instancesToRestart restartfail_env faulted_cloud = [''i-1'', ''i-2'']"
  by (simp add: reset_defs)

lemma restartfail_calls:
  "instanceCalls (snd (forceRestartEC2InstancesWithStateChange restartfail_env faulted_cloud))
     = [StopInstances ''i-1'', StopInstances ''i-2'']"
  by (simp add: reset_defs)

lemma step_pair: "fst (f x) = r \<Longrightarrow> f x = (r, snd (f x))"
  by (simp add: prod_eq_iff)

lemma trailfail_sg:
  "fst (resetSecurityGroups trailfail_env (stopRunningStepFunctions trailfail_env faulted_cloud)) = Inr ()"
  by (simp add: reset_defs)

lemma trailfail_s3:
  "fst (enableS3PublicAccessBlock trailfail_env
          (snd (resetSecurityGroups trailfail_env (stopRunningStepFunctions trailfail_env faulted_cloud))))
     = Inr ()"
  by (simp add: reset_defs)

lemma trailfail_trail:
  "fst (enableCloudTrail trailfail_env
         (snd (enableS3PublicAccessBlock trailfail_env
          (snd (resetSecurityGroups trailfail_env (stopRunningStepFunctions trailfail_env faulted_cloud))))))
     = Inl (Thrown ''UpdateTrail'')"
  by (simp add: reset_defs)

lemma restartfail_sg:
  "fst (resetSecurityGroups restartfail_env (stopRunningStepFunctions restartfail_env faulted_cloud)) = Inr ()"
  by (simp add: reset_defs)

lemma restartfail_s3:
  "fst (enableS3PublicAccessBlock restartfail_env
          (snd (resetSecurityGroups restartfail_env (stopRunningStepFunctions restartfail_env faulted_cloud))))
     = Inr ()"
  by (simp add: reset_defs)

lemma restartfail_trail:
  "fst (enableCloudTrail restartfail_env
         (snd (enableS3PublicAccessBlock restartfail_env
          (snd (resetSecurityGroups restartfail_env (stopRunningStepFunctions restartfail_env faulted_cloud))))))
     = Inr ()"
  by (simp add: reset_defs)

lemma restartfail_restart:
  "fst (forceRestartEC2InstancesWithStateChange restartfail_env
        (snd (resetIAMRole restartfail_env
         (snd (enableCloudTrail restartfail_env
         (snd (enableS3PublicAccessBlock restartfail_env
          (snd (resetSecurityGroups restartfail_env (stopRunningStepFunctions restartfail_env faulted_cloud))))))))))
     = Inl (Thrown ''StartInstances'')"
  by (simp add: reset_defs)

lemma ok_sg:
  "fst (resetSecurityGroups ok_env (stopRunningStepFunctions ok_env faulted_cloud)) = Inr ()"
  by (simp add: reset_defs)

lemma ok_s3:
  "fst (enableS3PublicAccessBlock ok_env
          (snd (resetSecurityGroups ok_env (stopRunningStepFunctions ok_env faulted_cloud))))
     = Inr ()"
  by (simp add: reset_defs)

lemma ok_trail:
  "fst (enableCloudTrail ok_env
         (snd (enableS3PublicAccessBlock ok_env
          (snd (resetSecurityGroups ok_env (stopRunningStepFunctions ok_env faulted_cloud))))))
     = Inr ()"
  by (simp add: reset_defs)

lemma ok_restart:
  "fst (forceRestartEC2InstancesWithStateChange ok_env
        (snd (resetIAMRole ok_env
         (snd (enableCloudTrail ok_env
         (snd (enableS3PublicAccessBlock ok_env
          (snd (resetSecurityGroups ok_env (stopRunningStepFunctions ok_env faulted_cloud))))))))))
     = Inr ()"
  by (simp add: reset_defs)

lemma allfail_alb:
  "getAlbSecurityGroup allfail_env faulted_cloud = Inl (Thrown ''DescribeSecurityGroups'')"
  by (simp add: reset_defs)

lemma sgfail_alb:
  "getAlbSecurityGroup sgfail_env faulted_cloud
     = Inr \<lparr>GroupId = ''sg-alb'', IpPermissions = [albBaseline, sshOpen]\<rparr>"
  by (simp add: reset_defs)

lemma sgfail_fails: "fails sgfail_env (AuthorizeSecurityGroupIngress ''sg-alb'')"
  by (simp add: reset_defs)

lemma faulted_bucket: "resourceIdOf (tables faulted_cloud) ''S3_BUCKET'' = Some ''bucket''"
  by (simp add: reset_defs)

lemma faulted_trail: "resourceIdOf (tables faulted_cloud) ''CLOUDTRAIL'' = Some ''trail''"
  by (simp add: reset_defs)

lemma restartfail_fails:
  "fails restartfail_env (StartInstances ''i-1'')
   \<and> instanceStateAt restartfail_env ''i-1'' 0 = Some ''running''"
  by (simp add: reset_defs)

theorem reset_step_error_aborts_witness:
  "reset_getGameState (tables faulted_cloud) \<noteq> ''Resetting''
   \<and> statusCode (fst (reset_handler sgfail_env faulted_cloud)) = 500
   \<and> snd (reset_handler sgfail_env faulted_cloud)
       = snd (resetSecurityGroups sgfail_env (stopRunningStepFunctions sgfail_env faulted_cloud))
   \<and> statusCode (fst (reset_handler s3fail_env faulted_cloud)) = 500
   \<and> snd (reset_handler s3fail_env faulted_cloud)
       = snd (enableS3PublicAccessBlock s3fail_env
               (snd (resetSecurityGroups s3fail_env
                      (stopRunningStepFunctions s3fail_env faulted_cloud))))
   \<and> statusCode (fst (reset_handler trailfail_env faulted_cloud)) = 500
   \<and> snd (reset_handler trailfail_env faulted_cloud)
       = snd (enableCloudTrail trailfail_env
               (snd (enableS3PublicAccessBlock trailfail_env
                 (snd (resetSecurityGroups trailfail_env
                        (stopRunningStepFunctions trailfail_env faulted_cloud))))))
   \<and> statusCode (fst (reset_handler restartfail_env faulted_cloud)) = 500
   \<and> snd (reset_handler restartfail_env faulted_cloud)
       = snd (forceRestartEC2InstancesWithStateChange restartfail_env
               (snd (resetIAMRole restartfail_env
                 (snd (enableCloudTrail restartfail_env
                   (snd (enableS3PublicAccessBlock restartfail_env
                     (snd (resetSecurityGroups restartfail_env
                            (stopRunningStepFunctions restartfail_env faulted_cloud))))))))))
   \<and> statusCode (fst (reset_handler ok_env faulted_cloud)) = 202
   \<and> snd (reset_handler ok_env faulted_cloud)
       = snd (startObservationStateMachine ok_env
           (snd (forceRestartEC2InstancesWithStateChange ok_env
               (snd (resetIAMRole ok_env
                 (snd (enableCloudTrail ok_env
                   (snd (enableS3PublicAccessBlock ok_env
                     (snd (resetSecurityGroups ok_env
                            (stopRunningStepFunctions ok_env faulted_cloud))))))))))))
   \<and> getAlbSecurityGroup allfail_env faulted_cloud = Inl (Thrown ''DescribeSecurityGroups'')
   \<and> isl (fst (resetSecurityGroups allfail_env faulted_cloud))
   \<and> getAlbSecurityGroup sgfail_env faulted_cloud
       = Inr \<lparr>GroupId = ''sg-alb'', IpPermissions = [albBaseline, sshOpen]\<rparr>
   \<and> fails sgfail_env (AuthorizeSecurityGroupIngress ''sg-alb'')
   \<and> isl (fst (resetSecurityGroups sgfail_env faulted_cloud))
   \<and> resourceIdOf (tables faulted_cloud) ''S3_BUCKET'' = Some ''bucket''
   \<and> fails s3fail_env PutPublicAccessBlock
   \<and> isl (fst (enableS3PublicAccessBlock s3fail_env faulted_cloud))
   \<and> snd (enableS3PublicAccessBlock s3fail_env faulted_cloud) = faulted_cloud
   \<and> resourceIdOf (tables faulted_cloud) ''CLOUDTRAIL'' = Some ''trail''
   \<and> fails trailfail_env UpdateTrail
   \<and> isl (fst (enableCloudTrail trailfail_env faulted_cloud))
   \<and> fails restartfail_env (StartInstances ''i-1'')
   \<and> instanceStateAt restartfail_env ''i-1'' 0 = Some ''running''
   \<and> ''i-1'' \<in> set (instancesToRestart restartfail_env faulted_cloud)
   \<and> isl (fst (forceRestartEC2InstancesWithStateChange restartfail_env faulted_cloud))
   \<and> tables (snd (forceRestartEC2InstancesWithStateChange restartfail_env faulted_cloud))
       = tables faulted_cloud
   \<and> fst (resetIAMRole allfail_env faulted_cloud) = Inr ()
   \<and> fst (startObservationStateMachine allfail_env faulted_cloud) = Inr ()"
proof -
  let ?g = "Thrown ''AuthorizeSecurityGroupIngress''"
  let ?alb = "\<lparr>GroupId = ''sg-alb'', IpPermissions = [albBaseline, sshOpen]\<rparr>"
  let ?c0 = "stopRunningStepFunctions sgfail_env faulted_cloud"
  let ?d0 = "stopRunningStepFunctions s3fail_env faulted_cloud"
  let ?d1 = "snd (resetSecurityGroups s3fail_env ?d0)"
  let ?t0 = "stopRunningStepFunctions trailfail_env faulted_cloud"
  let ?t1 = "snd (resetSecurityGroups trailfail_env ?t0)"
  let ?t2 = "snd (enableS3PublicAccessBlock trailfail_env ?t1)"
  let ?r0 = "stopRunningStepFunctions restartfail_env faulted_cloud"
  let ?r1 = "snd (resetSecurityGroups restartfail_env ?r0)"
  let ?r2 = "snd (enableS3PublicAccessBlock restartfail_env ?r1)"
  let ?r3 = "snd (enableCloudTrail restartfail_env ?r2)"
  let ?r4 = "snd (resetIAMRole restartfail_env ?r3)"
  let ?k0 = "stopRunningStepFunctions ok_env faulted_cloud"
  let ?k1 = "snd (resetSecurityGroups ok_env ?k0)"
  let ?k2 = "snd (enableS3PublicAccessBlock ok_env ?k1)"
  let ?k3 = "snd (enableCloudTrail ok_env ?k2)"
  let ?k4 = "snd (resetIAMRole ok_env ?k3)"
  let ?k5 = "snd (forceRestartEC2InstancesWithStateChange ok_env ?k4)"
  have a: "reset_getGameState (tables faulted_cloud) \<noteq> ''Resetting''"
    by (simp add: reset_defs)
  have "fst (resetSecurityGroups sgfail_env ?c0) = Inl ?g"
    by (simp add: reset_defs)
  then have sg: "resetSecurityGroups sgfail_env ?c0 = (Inl ?g, snd (resetSecurityGroups sgfail_env ?c0))"
    by (rule step_pair)
  have s1: "resetSecurityGroups s3fail_env ?d0 = (Inr (), ?d1)"
    using s3fail_sg by (rule step_pair)
  have s2: "enableS3PublicAccessBlock s3fail_env ?d1
      = (Inl (Thrown ''PutPublicAccessBlock''), snd (enableS3PublicAccessBlock s3fail_env ?d1))"
    using s3fail_s3 by (rule step_pair)
  have t1: "resetSecurityGroups trailfail_env ?t0 = (Inr (), ?t1)"
    using trailfail_sg by (rule step_pair)
  have t2: "enableS3PublicAccessBlock trailfail_env ?t1 = (Inr (), ?t2)"
    using trailfail_s3 by (rule step_pair)
  have t3: "enableCloudTrail trailfail_env ?t2
      = (Inl (Thrown ''UpdateTrail''), snd (enableCloudTrail trailfail_env ?t2))"
    using trailfail_trail by (rule step_pair)
  have r1: "resetSecurityGroups restartfail_env ?r0 = (Inr (), ?r1)"
    using restartfail_sg by (rule step_pair)
  have r2: "enableS3PublicAccessBlock restartfail_env ?r1 = (Inr (), ?r2)"
    using restartfail_s3 by (rule step_pair)
  have r3: "enableCloudTrail restartfail_env ?r2 = (Inr (), ?r3)"
    using restartfail_trail by (rule step_pair)
  have r5: "forceRestartEC2InstancesWithStateChange restartfail_env ?r4
      = (Inl (Thrown ''StartInstances''),
         snd (forceRestartEC2InstancesWithStateChange restartfail_env ?r4))"
    using restartfail_restart by (rule step_pair)
  have k1: "resetSecurityGroups ok_env ?k0 = (Inr (), ?k1)"
    using ok_sg by (rule step_pair)
  have k2: "enableS3PublicAccessBlock ok_env ?k1 = (Inr (), ?k2)"
    using ok_s3 by (rule step_pair)
  have k3: "enableCloudTrail ok_env ?k2 = (Inr (), ?k3)"
    using ok_trail by (rule step_pair)
  have k5: "forceRestartEC2InstancesWithStateChange ok_env ?k4 = (Inr (), ?k5)"
    using ok_restart by (rule step_pair)
  have i: "''i-1'' \<in> set (instancesToRestart restartfail_env faulted_cloud)"
    by (simp add: restartfail_instances)
  have ff: "fails restartfail_env (StartInstances ''i-1'')"
    and fs: "instanceStateAt restartfail_env ''i-1'' 0 = Some ''running''"
    using restartfail_fails by simp_all
  have fp: "fails s3fail_env PutPublicAccessBlock" by (simp add: reset_defs)
  have fu: "fails trailfail_env UpdateTrail" by (simp add: reset_defs)
  have w1: "statusCode (fst (reset_handler sgfail_env faulted_cloud)) = 500
      \<and> snd (reset_handler sgfail_env faulted_cloud) = snd (resetSecurityGroups sgfail_env ?c0)"
    by (rule reset_step_error_aborts [OF a, where env = sgfail_env and e = ?g
        and c' = "snd (resetSecurityGroups sgfail_env ?c0)", THEN conjunct1, THEN mp, OF sg])
  have w2: "statusCode (fst (reset_handler s3fail_env faulted_cloud)) = 500
      \<and> snd (reset_handler s3fail_env faulted_cloud)
          = snd (enableS3PublicAccessBlock s3fail_env ?d1)"
    by (rule reset_step_error_aborts [OF a, where env = s3fail_env
        and e = "Thrown ''PutPublicAccessBlock''" and ca = ?d1
        and c' = "snd (enableS3PublicAccessBlock s3fail_env ?d1)",
        THEN conjunct2, THEN conjunct1, THEN mp, OF conjI [OF s1 s2]])
  have w3: "statusCode (fst (reset_handler trailfail_env faulted_cloud)) = 500
      \<and> snd (reset_handler trailfail_env faulted_cloud) = snd (enableCloudTrail trailfail_env ?t2)"
    by (rule reset_step_error_aborts [OF a, where env = trailfail_env
        and e = "Thrown ''UpdateTrail''" and ca = ?t1 and cb = ?t2
        and c' = "snd (enableCloudTrail trailfail_env ?t2)",
        THEN conjunct2, THEN conjunct2, THEN conjunct1, THEN mp,
        OF conjI [OF t1 conjI [OF t2 t3]]])
  have w4: "statusCode (fst (reset_handler restartfail_env faulted_cloud)) = 500
      \<and> snd (reset_handler restartfail_env faulted_cloud)
          = snd (forceRestartEC2InstancesWithStateChange restartfail_env ?r4)"
    by (rule reset_step_error_aborts [OF a, where env = restartfail_env
        and e = "Thrown ''StartInstances''" and ca = ?r1 and cb = ?r2 and cc = ?r3
        and c' = "snd (forceRestartEC2InstancesWithStateChange restartfail_env ?r4)",
        THEN conjunct2, THEN conjunct2, THEN conjunct2, THEN conjunct1, THEN mp,
        OF conjI [OF r1 conjI [OF r2 conjI [OF r3 r5]]]])
  have w5: "statusCode (fst (reset_handler ok_env faulted_cloud)) = 202
      \<and> snd (reset_handler ok_env faulted_cloud) = snd (startObservationStateMachine ok_env ?k5)"
    by (rule reset_step_error_aborts [OF a, where env = ok_env and ca = ?k1 and cb = ?k2 and cc = ?k3 and ce = ?k5,
        THEN conjunct2, THEN conjunct2, THEN conjunct2, THEN conjunct2, THEN conjunct1, THEN mp,
        OF conjI [OF k1 conjI [OF k2 conjI [OF k3 k5]]]])
  have "\<exists>err'. fst (resetSecurityGroups allfail_env faulted_cloud) = Inl err'"
    by (rule reset_step_error_aborts [OF a, where env = allfail_env and x = faulted_cloud
        and err = "Thrown ''DescribeSecurityGroups''", THEN conjunct2, THEN conjunct2, THEN conjunct2, THEN conjunct2, THEN conjunct2,
        THEN conjunct1, THEN mp,
        OF disjI1 [OF allfail_alb]])
  then have w6: "isl (fst (resetSecurityGroups allfail_env faulted_cloud))" by auto
  have "\<exists>err'. fst (resetSecurityGroups sgfail_env faulted_cloud) = Inl err'"
    by (rule reset_step_error_aborts [OF a, where env = sgfail_env and x = faulted_cloud and g = ?alb,
        THEN conjunct2, THEN conjunct2, THEN conjunct2, THEN conjunct2, THEN conjunct2,
        THEN conjunct2, THEN conjunct1, THEN mp])
      (simp add: sgfail_alb sgfail_fails)
  then have w7: "isl (fst (resetSecurityGroups sgfail_env faulted_cloud))" by auto
  have "\<exists>err'. enableS3PublicAccessBlock s3fail_env faulted_cloud = (Inl err', faulted_cloud)"
    by (rule reset_step_error_aborts [OF a, where env = s3fail_env and x = faulted_cloud and b = "''bucket''",
        THEN conjunct2, THEN conjunct2, THEN conjunct2, THEN conjunct2, THEN conjunct2,
        THEN conjunct2, THEN conjunct2, THEN conjunct1, THEN mp,
        OF conjI [OF faulted_bucket disjI2 [OF fp]]])
  then have w8: "isl (fst (enableS3PublicAccessBlock s3fail_env faulted_cloud))
      \<and> snd (enableS3PublicAccessBlock s3fail_env faulted_cloud) = faulted_cloud" by auto
  have "\<exists>err'. fst (enableCloudTrail trailfail_env faulted_cloud) = Inl err'"
    by (rule reset_step_error_aborts [OF a, where env = trailfail_env and x = faulted_cloud and n = "''trail''",
        THEN conjunct2, THEN conjunct2, THEN conjunct2, THEN conjunct2, THEN conjunct2,
        THEN conjunct2, THEN conjunct2, THEN conjunct2, THEN conjunct1, THEN mp])
      (simp add: faulted_trail fu)
  then have w9: "isl (fst (enableCloudTrail trailfail_env faulted_cloud))" by auto
  have "\<exists>t err'. (t, Rejected err') \<in> set (startEC2InstanceRestart restartfail_env ''i-1'')"
    by (rule reset_step_error_aborts [OF a, where env = restartfail_env and i = "''i-1''",
        THEN conjunct2, THEN conjunct2, THEN conjunct2, THEN conjunct2, THEN conjunct2,
        THEN conjunct2, THEN conjunct2, THEN conjunct2, THEN conjunct2, THEN conjunct1, THEN mp])
      (simp add: ff fs)
  then obtain t err' where
    rj: "(t, Rejected err') \<in> set (startEC2InstanceRestart restartfail_env ''i-1'')" by blast
  have "(\<exists>err'. fst (forceRestartEC2InstancesWithStateChange restartfail_env faulted_cloud) = Inl err')
      \<and> tables (snd (forceRestartEC2InstancesWithStateChange restartfail_env faulted_cloud))
          = tables faulted_cloud"
    by (rule reset_step_error_aborts [OF a, where env = restartfail_env and x = faulted_cloud
        and i = "''i-1''" and t = t and err = err',
        THEN conjunct2, THEN conjunct2, THEN conjunct2, THEN conjunct2, THEN conjunct2,
        THEN conjunct2, THEN conjunct2, THEN conjunct2, THEN conjunct2, THEN conjunct2,
        THEN conjunct1, THEN mp, OF conjI [OF i rj]])
  then have w10: "isl (fst (forceRestartEC2InstancesWithStateChange restartfail_env faulted_cloud))
      \<and> tables (snd (forceRestartEC2InstancesWithStateChange restartfail_env faulted_cloud))
          = tables faulted_cloud" by auto
  have w11: "fst (resetIAMRole allfail_env faulted_cloud) = Inr ()
      \<and> fst (startObservationStateMachine allfail_env faulted_cloud) = Inr ()"
    by (rule reset_step_error_aborts [OF a, where env = allfail_env and x = faulted_cloud,
        THEN conjunct2, THEN conjunct2, THEN conjunct2, THEN conjunct2, THEN conjunct2,
        THEN conjunct2, THEN conjunct2, THEN conjunct2, THEN conjunct2, THEN conjunct2,
        THEN conjunct2])
  show ?thesis
    using a w1 w2 w3 w4 w5 w6 w7 w8 w9 w10 w11 allfail_alb sgfail_alb sgfail_fails
      faulted_bucket fp faulted_trail fu ff fs i
    by (simp only: simp_thms)
qed

text \<open>
  The same for the restart step: both instances are stopped, the start call of the first
  fails ten seconds later, and the handler answers 500 with the game still \<open>Ongoing\<close>
  and no observation run started.
\<close>

lemma restart_error_state:
  "statusCode (fst (reset_handler restartfail_env faulted_cloud)) = 500
   \<and> instanceCalls (snd (reset_handler restartfail_env faulted_cloud))
       = [StopInstances ''i-1'', StopInstances ''i-2'']
   \<and> executions (snd (reset_handler restartfail_env faulted_cloud)) = [(''exec-1'', ABORTED)]
   \<and> reset_getGameState (tables (snd (reset_handler restartfail_env faulted_cloud))) = ''Ongoing''"
  by (simp add: reset_defs)

end
